theory Spec2Isabelle
  imports Complex_Main "HOL-Library.Word"
begin

section \<open>The cuBLAS backend of the level-1 BLAS routines\<close>

text \<open>
  A shallow embedding of \<^verbatim>\<open>src/blas/backends/cublas/cublas_level1.cpp\<close>.
  Every routine of that file has the same shape: validate the count and the
  strides, submit one command group to the queue, and inside its \<^verbatim>\<open>interop_task\<close>
  acquire the cached handle, possibly set its pointer mode, resolve the buffers
  and issue one vendor call whose status is checked.

  Conventions of the embedding:
  \<^item> \<^verbatim>\<open>int64_t\<close> is a 64-bit word, \<^verbatim>\<open>int\<close> a 32-bit word, read as signed with \<open>sint\<close>;
  \<^item> a \<^verbatim>\<open>cl::sycl::buffer<T, 1>\<close> is the list of its elements; a routine returns the
    buffers it may have written;
  \<^item> the state shared between calls (handle cache, pointer mode of each handle) is the
    record \<open>cublas_world\<close>, passed in and returned; it also counts the command
    groups submitted and lists the vendor calls issued, so that both can be observed;
  \<^item> a C++ \<^verbatim>\<open>throw\<close> is a value \<open>Some fault\<close> in the first component of the result, and
    nothing of the routine runs after it;
  \<^item> the command group is run at the point of \<^verbatim>\<open>queue.submit\<close>: a host accessor on a
    buffer waits for the command groups that use this buffer, so the host code after
    the submit sees the buffers as the command group left them;
  \<^item> the vendor routine is the template parameter \<^verbatim>\<open>Func func\<close> of the source and
    stays a parameter here. It is given the pointer mode of the handle and the
    arguments in the order of the call site (integers as the \<^verbatim>\<open>int64_t\<close> values of the
    call expression; any narrowing to the vendor's own parameter types happens on the
    vendor's side of the call), and returns its status with what it leaves behind the
    pointers it may write.
\<close>

subsection \<open>Integers\<close>

type_synonym int64_t = "64 word"
type_synonym c_int = "32 word"

text \<open>\<^verbatim>\<open>std::abs\<close> on \<^verbatim>\<open>int64_t\<close>; at the least value the negation wraps around
  (the C++ result is undefined there).\<close>

definition std_abs :: "int64_t \<Rightarrow> int64_t" where
  "std_abs v = (if sint v < 0 then - v else v)"

text \<open>\<^verbatim>\<open>std::max\<close> on \<^verbatim>\<open>int64_t\<close>: the second argument when the first is smaller.\<close>

definition std_max :: "int64_t \<Rightarrow> int64_t \<Rightarrow> int64_t" where
  "std_max a b = (if sint a < sint b then b else a)"

subsection \<open>Faults, handles and the shared state\<close>

type_synonym cublasStatus_t = nat

definition CUBLAS_STATUS_SUCCESS :: cublasStatus_t where
  "CUBLAS_STATUS_SUCCESS = 0"

datatype cublasPointerMode_t = CUBLAS_POINTER_MODE_HOST | CUBLAS_POINTER_MODE_DEVICE

datatype fault = OverflowError | NativeCallFailure string cublasStatus_t

text \<open>A queue, as far as this file looks at it: the native context it is bound to.\<close>

record queue =
  queue_id :: nat
  native_context :: nat

text \<open>One vendor call as issued: the routine as the call site writes it, the handle,
  the pointer mode of the handle at that moment, and the integer arguments (count and
  strides) in call order.\<close>

record native_call =
  routine :: string
  on_handle :: nat
  mode_at_call :: cublasPointerMode_t
  int_args :: "int64_t list"

record cublas_world =
  handle_cache :: "nat \<Rightarrow> nat option"
  handles_created :: nat
  pointer_mode :: "nat \<Rightarrow> cublasPointerMode_t"
  submitted :: nat
  mode_sets :: nat
  native_calls :: "native_call list"

definition fault_of :: "fault option \<times> cublas_world \<times> 'b \<Rightarrow> fault option" where
  "fault_of r = fst r"

definition world_of :: "fault option \<times> cublas_world \<times> 'b \<Rightarrow> cublas_world" where
  "world_of r = fst (snd r)"

definition buffers_of :: "fault option \<times> cublas_world \<times> 'b \<Rightarrow> 'b" where
  "buffers_of r = snd (snd r)"

subsection \<open>The helpers the routines call\<close>

definition native_int_fits :: "int \<Rightarrow> bool" where
  "native_int_fits v \<longleftrightarrow> - (2 ^ 31) \<le> v \<and> v < 2 ^ 31"

definition max_abs_stride :: "int64_t list \<Rightarrow> int" where
  "max_abs_stride strides = foldr (\<lambda>s m. max \<bar>sint s\<bar> m) strides 0"

text \<open>Modelled from the spec: \<^verbatim>\<open>overflow_check\<close> is declared in
  \<^verbatim>\<open>cublas_helper.hpp\<close>, which is not among the sources. The specification says that
  a routine taking a count \<open>n\<close> and strides validates that \<open>n * max(|stride|)\<close> does
  not overflow the native integer width and faults with \<open>OverflowError\<close> otherwise.
  The native integer is the vendor's 32-bit \<^verbatim>\<open>int\<close>. The result is the fault thrown,
  if any.\<close>

definition overflow_check :: "int64_t \<Rightarrow> int64_t list \<Rightarrow> fault option" where
  "overflow_check n strides =
     (if native_int_fits (sint n * max_abs_stride strides) then None
      else Some OverflowError)"

text \<open>\<^verbatim>\<open>queue.submit\<close>: one more command group.\<close>

definition queue_submit :: "cublas_world \<Rightarrow> cublas_world" where
  "queue_submit w = w\<lparr>submitted := Suc (submitted w)\<rparr>"

text \<open>Modelled from the spec: \<^verbatim>\<open>CublasScopedContextHandler::get_handle\<close> is declared in
  \<^verbatim>\<open>cublas_scope_handle.hpp\<close>, which is not among the sources. The specification
  describes an association from the native context to a lazily created handle: a
  request for a context that has a handle returns it, a request for a new context
  creates one. A handle is created in host pointer mode, the vendor's default.\<close>

definition get_handle :: "queue \<Rightarrow> cublas_world \<Rightarrow> nat \<times> cublas_world" where
  "get_handle q w =
     (case handle_cache w (native_context q) of
        Some h \<Rightarrow> (h, w)
      | None \<Rightarrow>
          (let h = handles_created w in
             (h, w\<lparr>handle_cache := (handle_cache w)(native_context q \<mapsto> h),
                    handles_created := Suc (handles_created w),
                    pointer_mode := (pointer_mode w)(h := CUBLAS_POINTER_MODE_HOST)\<rparr>)))"

text \<open>\<^verbatim>\<open>cublasSetPointerMode\<close> of the vendor library: the mode of that handle changes.
  The source discards the status this call returns; the state counts these calls.\<close>

definition cublasSetPointerMode ::
  "nat \<Rightarrow> cublasPointerMode_t \<Rightarrow> cublas_world \<Rightarrow> cublas_world" where
  "cublasSetPointerMode h m w =
     w\<lparr>pointer_mode := (pointer_mode w)(h := m), mode_sets := Suc (mode_sets w)\<rparr>"

text \<open>The record of a vendor call in the list of calls issued.\<close>

definition native_call_made ::
  "string \<Rightarrow> nat \<Rightarrow> int64_t list \<Rightarrow> cublas_world \<Rightarrow> cublas_world" where
  "native_call_made name h ints w =
     w\<lparr>native_calls := native_calls w @
          [\<lparr>routine = name, on_handle = h, mode_at_call = pointer_mode w h,
            int_args = ints\<rparr>]\<rparr>"

text \<open>Modelled from the spec: the macro \<^verbatim>\<open>CUBLAS_ERROR_FUNC\<close> is defined in
  \<^verbatim>\<open>cublas_helper.hpp\<close>, which is not among the sources. The specification says that
  the native status code is captured and converted to a fault carrying the routine
  name and the native code, success being status 0. A macro has the routine only as
  the text of its first argument, so that text is the name here: the call sites of
  the templated routines write \<^verbatim>\<open>func\<close>, those of \<^verbatim>\<open>sdsdot\<close> and of the mixed-precision
  \<^verbatim>\<open>dot\<close> write \<^verbatim>\<open>cublasSdot\<close>. The call itself is written out in each routine below;
  this is the check of the captured status.\<close>

definition CUBLAS_ERROR_FUNC :: "string \<Rightarrow> cublasStatus_t \<Rightarrow> fault option" where
  "CUBLAS_ERROR_FUNC name err =
     (if err \<noteq> CUBLAS_STATUS_SUCCESS then Some (NativeCallFailure name err) else None)"

subsection \<open>The routines\<close>

definition asum ::
  "(cublasPointerMode_t \<Rightarrow> int64_t \<Rightarrow> 'a list \<Rightarrow> int64_t \<Rightarrow> cublasStatus_t \<times> 'r)
   \<Rightarrow> cublas_world \<Rightarrow> queue \<Rightarrow> int64_t \<Rightarrow> 'a list \<Rightarrow> int64_t \<Rightarrow> 'r list
   \<Rightarrow> fault option \<times> cublas_world \<times> 'r list" where
  "asum func w queue n x incx result =
     (case overflow_check n [incx] of
        Some e \<Rightarrow> (Some e, w, result)
      | None \<Rightarrow>
          (let w1 = queue_submit w;
               (handle, w2) = get_handle queue w1;
               w3 = cublasSetPointerMode handle CUBLAS_POINTER_MODE_DEVICE w2;
               (err, res) = func (pointer_mode w3 handle) n x (std_abs incx);
               w4 = native_call_made ''func'' handle [n, std_abs incx] w3
           in (CUBLAS_ERROR_FUNC ''func'' err, w4, result[0 := res])))"

definition scal ::
  "(cublasPointerMode_t \<Rightarrow> int64_t \<Rightarrow> 's \<Rightarrow> 'a list \<Rightarrow> int64_t \<Rightarrow> cublasStatus_t \<times> 'a list)
   \<Rightarrow> cublas_world \<Rightarrow> queue \<Rightarrow> int64_t \<Rightarrow> 's \<Rightarrow> 'a list \<Rightarrow> int64_t
   \<Rightarrow> fault option \<times> cublas_world \<times> 'a list" where
  "scal func w queue n a x incx =
     (case overflow_check n [incx] of
        Some e \<Rightarrow> (Some e, w, x)
      | None \<Rightarrow>
          (let w1 = queue_submit w;
               (handle, w2) = get_handle queue w1;
               (err, x') = func (pointer_mode w2 handle) n a x (std_abs incx);
               w3 = native_call_made ''func'' handle [n, std_abs incx] w2
           in (CUBLAS_ERROR_FUNC ''func'' err, w3, x')))"

definition axpy ::
  "(cublasPointerMode_t \<Rightarrow> int64_t \<Rightarrow> 'a \<Rightarrow> 'a list \<Rightarrow> int64_t \<Rightarrow> 'a list \<Rightarrow> int64_t
      \<Rightarrow> cublasStatus_t \<times> 'a list)
   \<Rightarrow> cublas_world \<Rightarrow> queue \<Rightarrow> int64_t \<Rightarrow> 'a \<Rightarrow> 'a list \<Rightarrow> int64_t \<Rightarrow> 'a list \<Rightarrow> int64_t
   \<Rightarrow> fault option \<times> cublas_world \<times> 'a list" where
  "axpy func w queue n alpha x incx y incy =
     (case overflow_check n [incx, incy] of
        Some e \<Rightarrow> (Some e, w, y)
      | None \<Rightarrow>
          (let w1 = queue_submit w;
               (handle, w2) = get_handle queue w1;
               (err, y') = func (pointer_mode w2 handle) n alpha x incx y incy;
               w3 = native_call_made ''func'' handle [n, incx, incy] w2
           in (CUBLAS_ERROR_FUNC ''func'' err, w3, y')))"

definition rotg ::
  "(cublasPointerMode_t \<Rightarrow> 'a list \<Rightarrow> 'a list \<Rightarrow> 'b list \<Rightarrow> 'a list
      \<Rightarrow> cublasStatus_t \<times> ('a list \<times> 'a list \<times> 'b list \<times> 'a list))
   \<Rightarrow> cublas_world \<Rightarrow> queue \<Rightarrow> 'a list \<Rightarrow> 'a list \<Rightarrow> 'b list \<Rightarrow> 'a list
   \<Rightarrow> fault option \<times> cublas_world \<times> ('a list \<times> 'a list \<times> 'b list \<times> 'a list)" where
  "rotg func w queue a b c s =
     (let w1 = queue_submit w;
          (handle, w2) = get_handle queue w1;
          w3 = cublasSetPointerMode handle CUBLAS_POINTER_MODE_DEVICE w2;
          (err, abcs) = func (pointer_mode w3 handle) a b c s;
          w4 = native_call_made ''func'' handle [] w3
      in (CUBLAS_ERROR_FUNC ''func'' err, w4, abcs))"

definition rotm ::
  "(cublasPointerMode_t \<Rightarrow> int64_t \<Rightarrow> 'a list \<Rightarrow> int64_t \<Rightarrow> 'a list \<Rightarrow> int64_t \<Rightarrow> 'a list
      \<Rightarrow> cublasStatus_t \<times> ('a list \<times> 'a list))
   \<Rightarrow> cublas_world \<Rightarrow> queue \<Rightarrow> int64_t \<Rightarrow> 'a list \<Rightarrow> int64_t \<Rightarrow> 'a list \<Rightarrow> int64_t \<Rightarrow> 'a list
   \<Rightarrow> fault option \<times> cublas_world \<times> ('a list \<times> 'a list)" where
  "rotm func w queue n x incx y incy param =
     (case overflow_check n [incx, incy] of
        Some e \<Rightarrow> (Some e, w, (x, y))
      | None \<Rightarrow>
          (let w1 = queue_submit w;
               (handle, w2) = get_handle queue w1;
               w3 = cublasSetPointerMode handle CUBLAS_POINTER_MODE_DEVICE w2;
               (err, xy) = func (pointer_mode w3 handle) n x incx y incy param;
               w4 = native_call_made ''func'' handle [n, incx, incy] w3
           in (CUBLAS_ERROR_FUNC ''func'' err, w4, xy)))"

definition copy ::
  "(cublasPointerMode_t \<Rightarrow> int64_t \<Rightarrow> 'a list \<Rightarrow> int64_t \<Rightarrow> 'a list \<Rightarrow> int64_t
      \<Rightarrow> cublasStatus_t \<times> 'a list)
   \<Rightarrow> cublas_world \<Rightarrow> queue \<Rightarrow> int64_t \<Rightarrow> 'a list \<Rightarrow> int64_t \<Rightarrow> 'a list \<Rightarrow> int64_t
   \<Rightarrow> fault option \<times> cublas_world \<times> 'a list" where
  "copy func w queue n x incx y incy =
     (case overflow_check n [incx, incy] of
        Some e \<Rightarrow> (Some e, w, y)
      | None \<Rightarrow>
          (let w1 = queue_submit w;
               (handle, w2) = get_handle queue w1;
               (err, y') = func (pointer_mode w2 handle) n x incx y incy;
               w3 = native_call_made ''func'' handle [n, incx, incy] w2
           in (CUBLAS_ERROR_FUNC ''func'' err, w3, y')))"

definition dot ::
  "(cublasPointerMode_t \<Rightarrow> int64_t \<Rightarrow> 'a list \<Rightarrow> int64_t \<Rightarrow> 'a list \<Rightarrow> int64_t
      \<Rightarrow> cublasStatus_t \<times> 'a)
   \<Rightarrow> cublas_world \<Rightarrow> queue \<Rightarrow> int64_t \<Rightarrow> 'a list \<Rightarrow> int64_t \<Rightarrow> 'a list \<Rightarrow> int64_t \<Rightarrow> 'a list
   \<Rightarrow> fault option \<times> cublas_world \<times> 'a list" where
  "dot func w queue n x incx y incy result =
     (case overflow_check n [incx, incy] of
        Some e \<Rightarrow> (Some e, w, result)
      | None \<Rightarrow>
          (let w1 = queue_submit w;
               (handle, w2) = get_handle queue w1;
               w3 = cublasSetPointerMode handle CUBLAS_POINTER_MODE_DEVICE w2;
               (err, res) = func (pointer_mode w3 handle) n x incx y incy;
               w4 = native_call_made ''func'' handle [n, incx, incy] w3
           in (CUBLAS_ERROR_FUNC ''func'' err, w4, result[0 := res])))"

text \<open>In \<^verbatim>\<open>rot\<close> the call of \<^verbatim>\<open>cublasSetPointerMode\<close> is commented out.\<close>

definition rot ::
  "(cublasPointerMode_t \<Rightarrow> int64_t \<Rightarrow> 'a list \<Rightarrow> int64_t \<Rightarrow> 'a list \<Rightarrow> int64_t \<Rightarrow> 'c \<Rightarrow> 's
      \<Rightarrow> cublasStatus_t \<times> ('a list \<times> 'a list))
   \<Rightarrow> cublas_world \<Rightarrow> queue \<Rightarrow> int64_t \<Rightarrow> 'a list \<Rightarrow> int64_t \<Rightarrow> 'a list \<Rightarrow> int64_t \<Rightarrow> 'c \<Rightarrow> 's
   \<Rightarrow> fault option \<times> cublas_world \<times> ('a list \<times> 'a list)" where
  "rot func w queue n x incx y incy c s =
     (case overflow_check n [incx, incy] of
        Some e \<Rightarrow> (Some e, w, (x, y))
      | None \<Rightarrow>
          (let w1 = queue_submit w;
               (handle, w2) = get_handle queue w1;
               (err, xy) = func (pointer_mode w2 handle) n x incx y incy c s;
               w3 = native_call_made ''func'' handle [n, incx, incy] w2
           in (CUBLAS_ERROR_FUNC ''func'' err, w3, xy)))"

text \<open>\<^verbatim>\<open>sdsdot\<close> names the vendor routine \<^verbatim>\<open>cublasSdot\<close> itself; it is the first
  parameter here. After the submit the host adds \<open>sb\<close> to element 0 of the result
  through a read-write host accessor.\<close>

definition sdsdot ::
  "(cublasPointerMode_t \<Rightarrow> int64_t \<Rightarrow> 'a list \<Rightarrow> int64_t \<Rightarrow> 'a list \<Rightarrow> int64_t
      \<Rightarrow> cublasStatus_t \<times> 'a)
   \<Rightarrow> cublas_world \<Rightarrow> queue \<Rightarrow> int64_t \<Rightarrow> ('a::plus) \<Rightarrow> 'a list \<Rightarrow> int64_t \<Rightarrow> 'a list \<Rightarrow> int64_t
   \<Rightarrow> 'a list \<Rightarrow> fault option \<times> cublas_world \<times> 'a list" where
  "sdsdot cublasSdot w queue n sb x incx y incy result =
     (case overflow_check n [incx, incy] of
        Some e \<Rightarrow> (Some e, w, result)
      | None \<Rightarrow>
          (let w1 = queue_submit w;
               (handle, w2) = get_handle queue w1;
               w3 = cublasSetPointerMode handle CUBLAS_POINTER_MODE_DEVICE w2;
               (err, res) = cublasSdot (pointer_mode w3 handle) n x incx y incy;
               w4 = native_call_made ''cublasSdot'' handle [n, incx, incy] w3;
               result1 = result[0 := res]
           in (case CUBLAS_ERROR_FUNC ''cublasSdot'' err of
                 Some e \<Rightarrow> (Some e, w4, result1)
               | None \<Rightarrow> (None, w4, result1[0 := result1 ! 0 + sb]))))"

text \<open>The overload of \<^verbatim>\<open>dot\<close> with \<^verbatim>\<open>float\<close> vectors and a \<^verbatim>\<open>double\<close> result. The
  vendor call writes a one-element \<^verbatim>\<open>float\<close> buffer of its own; the host then stores
  the cast \<^verbatim>\<open>(double)\<close> of that element, here the parameter \<open>to_double\<close>.\<close>

definition dot_mixed ::
  "(cublasPointerMode_t \<Rightarrow> int64_t \<Rightarrow> 'f list \<Rightarrow> int64_t \<Rightarrow> 'f list \<Rightarrow> int64_t
      \<Rightarrow> cublasStatus_t \<times> 'f)
   \<Rightarrow> ('f \<Rightarrow> 'd) \<Rightarrow> cublas_world \<Rightarrow> queue \<Rightarrow> int64_t \<Rightarrow> 'f list \<Rightarrow> int64_t \<Rightarrow> 'f list
   \<Rightarrow> int64_t \<Rightarrow> 'd list \<Rightarrow> fault option \<times> cublas_world \<times> 'd list" where
  "dot_mixed cublasSdot to_double w queue n x incx y incy result =
     (case overflow_check n [incx, incy] of
        Some e \<Rightarrow> (Some e, w, result)
      | None \<Rightarrow>
          (let w1 = queue_submit w;
               (handle, w2) = get_handle queue w1;
               w3 = cublasSetPointerMode handle CUBLAS_POINTER_MODE_DEVICE w2;
               (err, float_res) = cublasSdot (pointer_mode w3 handle) n x incx y incy;
               w4 = native_call_made ''cublasSdot'' handle [n, incx, incy] w3
           in (case CUBLAS_ERROR_FUNC ''cublasSdot'' err of
                 Some e \<Rightarrow> (Some e, w4, result)
               | None \<Rightarrow> (None, w4, result[0 := to_double float_res]))))"

text \<open>\<^verbatim>\<open>rotmg\<close> wraps the host scalar \<open>y1\<close> in a one-element buffer read by the call.\<close>

definition rotmg ::
  "(cublasPointerMode_t \<Rightarrow> 'a list \<Rightarrow> 'a list \<Rightarrow> 'a list \<Rightarrow> 'a list \<Rightarrow> 'a list
      \<Rightarrow> cublasStatus_t \<times> ('a list \<times> 'a list \<times> 'a list \<times> 'a list))
   \<Rightarrow> cublas_world \<Rightarrow> queue \<Rightarrow> 'a list \<Rightarrow> 'a list \<Rightarrow> 'a list \<Rightarrow> 'a \<Rightarrow> 'a list
   \<Rightarrow> fault option \<times> cublas_world \<times> ('a list \<times> 'a list \<times> 'a list \<times> 'a list)" where
  "rotmg func w queue d1 d2 x1 y1 param =
     (let y1_buff = [y1];
          w1 = queue_submit w;
          (handle, w2) = get_handle queue w1;
          w3 = cublasSetPointerMode handle CUBLAS_POINTER_MODE_DEVICE w2;
          (err, outs) = func (pointer_mode w3 handle) d1 d2 x1 y1_buff param;
          w4 = native_call_made ''func'' handle [] w3
      in (CUBLAS_ERROR_FUNC ''func'' err, w4, outs))"

text \<open>\<^verbatim>\<open>iamax\<close> and \<^verbatim>\<open>iamin\<close>: the vendor call writes a one-element \<^verbatim>\<open>int\<close> buffer
  of the routine; the host then stores \<^verbatim>\<open>std::max((int64_t)int_res - 1, int64_t{0})\<close>
  in element 0 of the caller's buffer.\<close>

definition iamax ::
  "(cublasPointerMode_t \<Rightarrow> int64_t \<Rightarrow> 'a list \<Rightarrow> int64_t \<Rightarrow> cublasStatus_t \<times> c_int)
   \<Rightarrow> cublas_world \<Rightarrow> queue \<Rightarrow> int64_t \<Rightarrow> 'a list \<Rightarrow> int64_t \<Rightarrow> int64_t list
   \<Rightarrow> fault option \<times> cublas_world \<times> int64_t list" where
  "iamax func w queue n x incx result =
     (case overflow_check n [incx] of
        Some e \<Rightarrow> (Some e, w, result)
      | None \<Rightarrow>
          (let w1 = queue_submit w;
               (handle, w2) = get_handle queue w1;
               w3 = cublasSetPointerMode handle CUBLAS_POINTER_MODE_DEVICE w2;
               (err, int_res) = func (pointer_mode w3 handle) n x incx;
               w4 = native_call_made ''func'' handle [n, incx] w3
           in (case CUBLAS_ERROR_FUNC ''func'' err of
                 Some e \<Rightarrow> (Some e, w4, result)
               | None \<Rightarrow> (None, w4, result[0 := std_max (scast int_res - 1) 0]))))"

definition swap ::
  "(cublasPointerMode_t \<Rightarrow> int64_t \<Rightarrow> 'a list \<Rightarrow> int64_t \<Rightarrow> 'a list \<Rightarrow> int64_t
      \<Rightarrow> cublasStatus_t \<times> ('a list \<times> 'a list))
   \<Rightarrow> cublas_world \<Rightarrow> queue \<Rightarrow> int64_t \<Rightarrow> 'a list \<Rightarrow> int64_t \<Rightarrow> 'a list \<Rightarrow> int64_t
   \<Rightarrow> fault option \<times> cublas_world \<times> ('a list \<times> 'a list)" where
  "swap func w queue n x incx y incy =
     (case overflow_check n [incx, incy] of
        Some e \<Rightarrow> (Some e, w, (x, y))
      | None \<Rightarrow>
          (let w1 = queue_submit w;
               (handle, w2) = get_handle queue w1;
               (err, xy) = func (pointer_mode w2 handle) n x incx y incy;
               w3 = native_call_made ''func'' handle [n, incx, incy] w2
           in (CUBLAS_ERROR_FUNC ''func'' err, w3, xy)))"

definition iamin ::
  "(cublasPointerMode_t \<Rightarrow> int64_t \<Rightarrow> 'a list \<Rightarrow> int64_t \<Rightarrow> cublasStatus_t \<times> c_int)
   \<Rightarrow> cublas_world \<Rightarrow> queue \<Rightarrow> int64_t \<Rightarrow> 'a list \<Rightarrow> int64_t \<Rightarrow> int64_t list
   \<Rightarrow> fault option \<times> cublas_world \<times> int64_t list" where
  "iamin func w queue n x incx result =
     (case overflow_check n [incx] of
        Some e \<Rightarrow> (Some e, w, result)
      | None \<Rightarrow>
          (let w1 = queue_submit w;
               (handle, w2) = get_handle queue w1;
               w3 = cublasSetPointerMode handle CUBLAS_POINTER_MODE_DEVICE w2;
               (err, int_res) = func (pointer_mode w3 handle) n x incx;
               w4 = native_call_made ''func'' handle [n, incx] w3
           in (case CUBLAS_ERROR_FUNC ''func'' err of
                 Some e \<Rightarrow> (Some e, w4, result)
               | None \<Rightarrow> (None, w4, result[0 := std_max (scast int_res - 1) 0]))))"

definition nrm2 ::
  "(cublasPointerMode_t \<Rightarrow> int64_t \<Rightarrow> 'a list \<Rightarrow> int64_t \<Rightarrow> cublasStatus_t \<times> 'r)
   \<Rightarrow> cublas_world \<Rightarrow> queue \<Rightarrow> int64_t \<Rightarrow> 'a list \<Rightarrow> int64_t \<Rightarrow> 'r list
   \<Rightarrow> fault option \<times> cublas_world \<times> 'r list" where
  "nrm2 func w queue n x incx result =
     (case overflow_check n [incx] of
        Some e \<Rightarrow> (Some e, w, result)
      | None \<Rightarrow>
          (let w1 = queue_submit w;
               (handle, w2) = get_handle queue w1;
               w3 = cublasSetPointerMode handle CUBLAS_POINTER_MODE_DEVICE w2;
               (err, res) = func (pointer_mode w3 handle) n x (std_abs incx);
               w4 = native_call_made ''func'' handle [n, std_abs incx] w3
           in (CUBLAS_ERROR_FUNC ''func'' err, w4, result[0 := res])))"

subsection \<open>Observing the shared state\<close>

text \<open>The pointer mode in which the next routine on a queue of context \<open>c\<close> finds its
  handle: the mode of the cached handle, or the default of a handle created on demand.\<close>

definition context_mode :: "cublas_world \<Rightarrow> nat \<Rightarrow> cublasPointerMode_t" where
  "context_mode w c =
     (case handle_cache w c of
        Some h \<Rightarrow> pointer_mode w h
      | None \<Rightarrow> CUBLAS_POINTER_MODE_HOST)"

text \<open>Acquiring handles for a list of queues, one after the other.\<close>

fun acquire_all :: "queue list \<Rightarrow> cublas_world \<Rightarrow> cublas_world" where
  "acquire_all [] w = w"
| "acquire_all (q # qs) w = acquire_all qs (snd (get_handle q w))"

text \<open>The state before any call, and a queue.\<close>

definition fresh_world :: cublas_world where
  "fresh_world =
     \<lparr>handle_cache = (\<lambda>c. None), handles_created = 0,
      pointer_mode = (\<lambda>h. CUBLAS_POINTER_MODE_HOST), submitted = 0, mode_sets = 0,
      native_calls = []\<rparr>"

definition q0 :: queue where
  "q0 = \<lparr>queue_id = 0, native_context = 7\<rparr>"

subsection \<open>Stand-ins for the vendor routines\<close>

text \<open>
  The vendor library is not part of the repository. To run a routine on concrete
  vectors its parameter is instantiated with one of the stand-ins below, which
  compute what the vendor documents: element \<open>i\<close> of an \<open>n\<close>-vector with stride \<open>inc\<close>
  sits at position \<open>i * inc\<close>, or at \<open>(n - 1 - i) * |inc|\<close> when the stride is negative;
  the reductions without a direction return 0 for a non-positive count or stride.
  None of the general theorems depends on them.
\<close>

definition blas_index :: "nat \<Rightarrow> int \<Rightarrow> nat \<Rightarrow> nat" where
  "blas_index n inc i = (if 0 \<le> inc then i * nat inc else (n - 1 - i) * nat (- inc))"

definition strided :: "int64_t \<Rightarrow> int64_t \<Rightarrow> 'a::zero list \<Rightarrow> 'a list" where
  "strided n inc x =
     map (\<lambda>i. let k = blas_index (nat (sint n)) (sint inc) i
              in if k < length x then x ! k else 0)
       [0..<nat (sint n)]"

definition first_index_of_max :: "real list \<Rightarrow> nat" where
  "first_index_of_max xs =
     (let m = fold max (map abs xs) 0 in length (takeWhile (\<lambda>v. \<bar>v\<bar> \<noteq> m) xs))"

definition ref_asum ::
  "cublasPointerMode_t \<Rightarrow> int64_t \<Rightarrow> real list \<Rightarrow> int64_t \<Rightarrow> cublasStatus_t \<times> real" where
  "ref_asum m n x incx =
     (CUBLAS_STATUS_SUCCESS,
      if sint n \<le> 0 \<or> sint incx \<le> 0 then 0 else sum_list (map abs (strided n incx x)))"

definition ref_dot ::
  "cublasPointerMode_t \<Rightarrow> int64_t \<Rightarrow> 'a list \<Rightarrow> int64_t \<Rightarrow> 'a list \<Rightarrow> int64_t
   \<Rightarrow> cublasStatus_t \<times> ('a::semiring_0)" where
  "ref_dot m n x incx y incy =
     (CUBLAS_STATUS_SUCCESS,
      sum_list (map (\<lambda>(a, b). a * b) (zip (strided n incx x) (strided n incy y))))"

definition ref_iamax ::
  "cublasPointerMode_t \<Rightarrow> int64_t \<Rightarrow> real list \<Rightarrow> int64_t \<Rightarrow> cublasStatus_t \<times> c_int" where
  "ref_iamax m n x incx =
     (CUBLAS_STATUS_SUCCESS,
      if sint n \<le> 0 \<or> sint incx \<le> 0 then 0
      else of_nat (Suc (first_index_of_max (strided n incx x))))"

definition ref_scal ::
  "cublasPointerMode_t \<Rightarrow> int64_t \<Rightarrow> real \<Rightarrow> real list \<Rightarrow> int64_t
   \<Rightarrow> cublasStatus_t \<times> real list" where
  "ref_scal m n a x incx =
     (CUBLAS_STATUS_SUCCESS,
      if sint n \<le> 0 \<or> sint incx \<le> 0 then x
      else map (\<lambda>k. if k mod nat (sint incx) = 0 \<and> k div nat (sint incx) < nat (sint n)
                    then a * x ! k else x ! k) [0..<length x])"


subsection \<open>What is stated of one invocation\<close>

text \<open>The vendor call a routine issued last.\<close>

definition last_call :: "fault option \<times> cublas_world \<times> 'b \<Rightarrow> native_call" where
  "last_call r = last (native_calls (world_of r))"

text \<open>Validation comes before the submit: when \<open>n * max |stride|\<close> fits the native
  integer the routine does not end in \<open>OverflowError\<close> and has submitted one command
  group; when it does not fit the routine ends in \<open>OverflowError\<close> with the shared
  state and the buffers \<open>bufs\<close> as they were (nothing submitted, no handle acquired,
  no vendor call).\<close>

definition validates_before_submit ::
  "int64_t \<Rightarrow> int64_t list \<Rightarrow> cublas_world \<Rightarrow> 'b \<Rightarrow> fault option \<times> cublas_world \<times> 'b
   \<Rightarrow> bool" where
  "validates_before_submit n strides w bufs r \<longleftrightarrow>
     (if native_int_fits (sint n * max_abs_stride strides)
      then fault_of r \<noteq> Some OverflowError \<and> submitted (world_of r) = Suc (submitted w)
      else r = (Some OverflowError, w, bufs))"



text \<open>The one vendor call was issued in device pointer mode, and the handle of the
  queue's context is in device pointer mode after the routine.\<close>

definition device_mode_call ::
  "cublas_world \<Rightarrow> queue \<Rightarrow> fault option \<times> cublas_world \<times> 'b \<Rightarrow> bool" where
  "device_mode_call w q r \<longleftrightarrow>
     length (native_calls (world_of r)) = Suc (length (native_calls w)) \<and>
     mode_at_call (last_call r) = CUBLAS_POINTER_MODE_DEVICE \<and>
     context_mode (world_of r) (native_context q) = CUBLAS_POINTER_MODE_DEVICE"

text \<open>A handle in device pointer mode before the routine is in device pointer mode
  after it.\<close>

definition keeps_device_mode ::
  "cublas_world \<Rightarrow> queue \<Rightarrow> fault option \<times> cublas_world \<times> 'b \<Rightarrow> bool" where
  "keeps_device_mode w q r \<longleftrightarrow>
     (context_mode w (native_context q) = CUBLAS_POINTER_MODE_DEVICE \<longrightarrow>
      context_mode (world_of r) (native_context q) = CUBLAS_POINTER_MODE_DEVICE)"

text \<open>The one vendor call was issued in the mode the handle had when the routine
  began, and the routine left that mode as it was.\<close>

definition no_mode_switch ::
  "cublas_world \<Rightarrow> queue \<Rightarrow> fault option \<times> cublas_world \<times> 'b \<Rightarrow> bool" where
  "no_mode_switch w q r \<longleftrightarrow>
     length (native_calls (world_of r)) = Suc (length (native_calls w)) \<and>
     mode_at_call (last_call r) = context_mode w (native_context q) \<and>
     context_mode (world_of r) (native_context q) = context_mode w (native_context q)"

text \<open>The vendor's documented result of the index routines: 0 when the stride is not
  positive, for every call that passes validation.\<close>

definition zero_index_contract ::
  "(cublasPointerMode_t \<Rightarrow> int64_t \<Rightarrow> 'a list \<Rightarrow> int64_t \<Rightarrow> cublasStatus_t \<times> c_int) \<Rightarrow> bool"
  where
  "zero_index_contract f \<longleftrightarrow>
     (\<forall>m n x incx. overflow_check n [incx] = None \<longrightarrow> sint incx \<le> 0 \<longrightarrow>
        snd (f m n x incx) = 0)"

text \<open>The caller's index buffer, read as signed integers, is as before except that
  element 0 holds \<open>max (narrow - 1) 0\<close>, \<open>narrow\<close> being the vendor's 32-bit result read
  as a signed integer; and the routine ended without a fault.\<close>

definition index_converted ::
  "c_int \<Rightarrow> int64_t list \<Rightarrow> fault option \<times> cublas_world \<times> int64_t list \<Rightarrow> bool" where
  "index_converted int_res result r \<longleftrightarrow>
     fault_of r = None \<and>
     buffers_of r = result[0 := std_max (scast int_res - 1) 0] \<and>
     map sint (buffers_of r) = (map sint result)[0 := max (sint int_res - 1) 0]"

text \<open>Whatever is written to element 0 of the caller's index buffer is 0: the buffer
  holds 0 there when the routine ends without a fault and is untouched otherwise.\<close>

definition zero_if_written ::
  "int64_t list \<Rightarrow> fault option \<times> cublas_world \<times> int64_t list \<Rightarrow> bool" where
  "zero_if_written result r \<longleftrightarrow>
     buffers_of r = (if fault_of r = None then result[0 := 0] else result)"

text \<open>As many handles were created as there are contexts with a handle.\<close>

definition cache_counted :: "cublas_world \<Rightarrow> bool" where
  "cache_counted w \<longleftrightarrow>
     finite (dom (handle_cache w)) \<and> handles_created w = card (dom (handle_cache w))"

section \<open>Facts about the helpers\<close>

lemma sint64_bounds: "- (2 ^ 63) \<le> sint (v :: int64_t)" "sint (v :: int64_t) < 2 ^ 63"
  using sint_ge [of v] sint_lt [of v] by simp_all

lemma sint32_bounds: "- (2 ^ 31) \<le> sint (v :: c_int)" "sint (v :: c_int) < 2 ^ 31"
  using sint_ge [of v] sint_lt [of v] by simp_all

lemma sint_neg64: "sint (v :: int64_t) \<noteq> - (2 ^ 63) \<Longrightarrow> sint (- v) = - sint v"
  using sint64_bounds [of v]
  by (simp add: sint_word_minus signed_take_bit_int_eq_self)

lemma sint_min_neg64: "sint (v :: int64_t) = - (2 ^ 63) \<Longrightarrow> sint (- v) = - (2 ^ 63)"
  by (simp add: sint_word_minus)

lemma neg_min64:
  assumes "sint (v :: int64_t) = - (2 ^ 63)"
  shows "- v = v"
proof -
  have "sint (- v) = sint v"
    using assms by (simp add: sint_min_neg64)
  then show ?thesis by (rule signed_word_eqI)
qed

lemma sint_std_abs: "sint v \<noteq> - (2 ^ 63) \<Longrightarrow> sint (std_abs v) = \<bar>sint v\<bar>"
  by (simp add: std_abs_def sint_neg64)

lemma abs_sint_std_abs: "\<bar>sint (std_abs v)\<bar> = \<bar>sint v\<bar>"
proof (cases "sint v = - (2 ^ 63)")
  case True
  then show ?thesis by (simp add: std_abs_def neg_min64)
next
  case False
  then show ?thesis by (simp add: sint_std_abs)
qed

lemma std_abs_idem: "std_abs (std_abs v) = std_abs v"
proof (cases "sint v = - (2 ^ 63)")
  case True
  then show ?thesis by (simp add: std_abs_def neg_min64)
next
  case False
  then have "sint (std_abs v) = \<bar>sint v\<bar>" by (rule sint_std_abs)
  then have "\<not> sint (std_abs v) < 0" by simp
  then show ?thesis by (subst std_abs_def) simp
qed

lemma sint_scast_int: "sint (scast (r :: c_int) :: int64_t) = sint r"
  by (rule sint_up_scast) (simp add: is_up)

lemma sint_index_conversion:
  fixes r :: c_int
  shows "sint (std_max (scast r - 1) (0 :: int64_t)) = max (sint r - 1) 0"
proof -
  have "sint (scast r - 1 :: int64_t) = sint r - 1"
    using sint32_bounds [of r]
    by (simp add: sint_word_diff sint_scast_int signed_take_bit_int_eq_self)
  then show ?thesis by (simp add: std_max_def max_def)
qed

lemma max_abs_stride_simps:
  "max_abs_stride [a] = \<bar>sint a\<bar>"
  "max_abs_stride [a, b] = max \<bar>sint a\<bar> \<bar>sint b\<bar>"
  by (simp_all add: max_abs_stride_def)

lemma overflow_check_std_abs: "overflow_check n [std_abs s] = overflow_check n [s]"
  by (simp add: overflow_check_def max_abs_stride_simps abs_sint_std_abs)

lemma overflow_check_None_iff:
  "overflow_check n strides = None \<longleftrightarrow> native_int_fits (sint n * max_abs_stride strides)"
  by (simp add: overflow_check_def)

lemma CUBLAS_ERROR_FUNC_not_overflow: "CUBLAS_ERROR_FUNC name err \<noteq> Some OverflowError"
  by (simp add: CUBLAS_ERROR_FUNC_def)

lemma CUBLAS_ERROR_FUNC_Some:
  "CUBLAS_ERROR_FUNC name err = Some e \<Longrightarrow> e \<noteq> OverflowError"
  by (auto simp add: CUBLAS_ERROR_FUNC_def split: if_splits)

lemma get_handle_frame:
  "submitted (snd (get_handle q w)) = submitted w"
  "native_calls (snd (get_handle q w)) = native_calls w"
  "mode_sets (snd (get_handle q w)) = mode_sets w"
  by (simp_all add: get_handle_def Let_def split: option.split)

lemma get_handle_cached:
  "handle_cache (snd (get_handle q w)) (native_context q) = Some (fst (get_handle q w))"
  by (simp add: get_handle_def Let_def split: option.split)

lemma get_handle_hit:
  "handle_cache w (native_context q) = Some h \<Longrightarrow> get_handle q w = (h, w)"
  by (simp add: get_handle_def)

lemma get_handle_mode:
  "pointer_mode (snd (get_handle q w)) (fst (get_handle q w)) =
     context_mode w (native_context q)"
  by (simp add: get_handle_def context_mode_def Let_def split: option.split)

lemma queue_submit_simps:
  "submitted (queue_submit w) = Suc (submitted w)"
  "native_calls (queue_submit w) = native_calls w"
  "handle_cache (queue_submit w) = handle_cache w"
  "pointer_mode (queue_submit w) = pointer_mode w"
  "handles_created (queue_submit w) = handles_created w"
  "mode_sets (queue_submit w) = mode_sets w"
  by (simp_all add: queue_submit_def)

lemma context_mode_queue_submit: "context_mode (queue_submit w) c = context_mode w c"
  by (simp add: context_mode_def queue_submit_def split: option.split)

lemma cublasSetPointerMode_simps:
  "submitted (cublasSetPointerMode h m w) = submitted w"
  "native_calls (cublasSetPointerMode h m w) = native_calls w"
  "handle_cache (cublasSetPointerMode h m w) = handle_cache w"
  "pointer_mode (cublasSetPointerMode h m w) h = m"
  "handles_created (cublasSetPointerMode h m w) = handles_created w"
  "mode_sets (cublasSetPointerMode h m w) = Suc (mode_sets w)"
  by (simp_all add: cublasSetPointerMode_def)

lemma native_call_made_simps:
  "submitted (native_call_made name h ints w) = submitted w"
  "handle_cache (native_call_made name h ints w) = handle_cache w"
  "pointer_mode (native_call_made name h ints w) = pointer_mode w"
  "handles_created (native_call_made name h ints w) = handles_created w"
  "mode_sets (native_call_made name h ints w) = mode_sets w"
  "length (native_calls (native_call_made name h ints w)) = Suc (length (native_calls w))"
  "last (native_calls (native_call_made name h ints w)) =
     \<lparr>routine = name, on_handle = h, mode_at_call = pointer_mode w h, int_args = ints\<rparr>"
  by (simp_all add: native_call_made_def)

lemma context_mode_native_call_made:
  "context_mode (native_call_made name h ints w) c = context_mode w c"
  by (simp add: context_mode_def native_call_made_def split: option.split)

text \<open>After the prologue of a command group without a mode switch, the context is in the mode
  it had; after the prologue with the switch, it is in device mode.\<close>

lemma context_mode_get_handle:
  "context_mode (snd (get_handle q w)) (native_context q) = context_mode w (native_context q)"
  by (simp add: get_handle_def context_mode_def Let_def split: option.split)

lemma context_mode_set_device:
  "context_mode
     (cublasSetPointerMode (fst (get_handle q w)) m (snd (get_handle q w)))
     (native_context q) = m"
  by (simp add: context_mode_def cublasSetPointerMode_def get_handle_cached)

lemmas world_simps = get_handle_frame get_handle_cached get_handle_mode queue_submit_simps
  context_mode_queue_submit cublasSetPointerMode_simps native_call_made_simps
  context_mode_native_call_made context_mode_get_handle context_mode_set_device

lemmas outcome_defs = fault_of_def world_of_def buffers_of_def last_call_def

section \<open>Validation before the submit\<close>

lemma asum_validates:
  "validates_before_submit n [incx] w result (asum func w queue n x incx result)"
  by (simp add: validates_before_submit_def asum_def overflow_check_def outcome_defs Let_def
      split_beta CUBLAS_ERROR_FUNC_not_overflow world_simps split: option.split)

lemma scal_validates:
  "validates_before_submit n [incx] w x (scal func w queue n a x incx)"
  by (simp add: validates_before_submit_def scal_def overflow_check_def outcome_defs Let_def
      split_beta CUBLAS_ERROR_FUNC_not_overflow world_simps split: option.split)

lemma axpy_validates:
  "validates_before_submit n [incx, incy] w y (axpy func w queue n alpha x incx y incy)"
  by (simp add: validates_before_submit_def axpy_def overflow_check_def outcome_defs Let_def
      split_beta CUBLAS_ERROR_FUNC_not_overflow world_simps split: option.split)

lemma rotm_validates:
  "validates_before_submit n [incx, incy] w (x, y) (rotm func w queue n x incx y incy param)"
  by (simp add: validates_before_submit_def rotm_def overflow_check_def outcome_defs Let_def
      split_beta CUBLAS_ERROR_FUNC_not_overflow world_simps split: option.split)

lemma copy_validates:
  "validates_before_submit n [incx, incy] w y (copy func w queue n x incx y incy)"
  by (simp add: validates_before_submit_def copy_def overflow_check_def outcome_defs Let_def
      split_beta CUBLAS_ERROR_FUNC_not_overflow world_simps split: option.split)

lemma dot_validates:
  "validates_before_submit n [incx, incy] w result (dot func w queue n x incx y incy result)"
  by (simp add: validates_before_submit_def dot_def overflow_check_def outcome_defs Let_def
      split_beta CUBLAS_ERROR_FUNC_not_overflow world_simps split: option.split)

lemma rot_validates:
  "validates_before_submit n [incx, incy] w (x, y) (rot func w queue n x incx y incy c s)"
  by (simp add: validates_before_submit_def rot_def overflow_check_def outcome_defs Let_def
      split_beta CUBLAS_ERROR_FUNC_not_overflow world_simps split: option.split)

lemma sdsdot_validates:
  "validates_before_submit n [incx, incy] w result (sdsdot cublasSdot w queue n sb x incx y incy result)"
  by (auto simp add: validates_before_submit_def sdsdot_def overflow_check_def outcome_defs Let_def
      split_beta CUBLAS_ERROR_FUNC_not_overflow world_simps split: option.split dest: CUBLAS_ERROR_FUNC_Some)

lemma dot_mixed_validates:
  "validates_before_submit n [incx, incy] w result (dot_mixed cublasSdot to_double w queue n x incx y incy result)"
  by (auto simp add: validates_before_submit_def dot_mixed_def overflow_check_def outcome_defs Let_def
      split_beta CUBLAS_ERROR_FUNC_not_overflow world_simps split: option.split dest: CUBLAS_ERROR_FUNC_Some)

lemma iamax_validates:
  "validates_before_submit n [incx] w result (iamax func w queue n x incx result)"
  by (auto simp add: validates_before_submit_def iamax_def overflow_check_def outcome_defs Let_def
      split_beta CUBLAS_ERROR_FUNC_not_overflow world_simps split: option.split dest: CUBLAS_ERROR_FUNC_Some)

lemma swap_validates:
  "validates_before_submit n [incx, incy] w (x, y) (swap func w queue n x incx y incy)"
  by (simp add: validates_before_submit_def swap_def overflow_check_def outcome_defs Let_def
      split_beta CUBLAS_ERROR_FUNC_not_overflow world_simps split: option.split)

lemma iamin_validates:
  "validates_before_submit n [incx] w result (iamin func w queue n x incx result)"
  by (auto simp add: validates_before_submit_def iamin_def overflow_check_def outcome_defs Let_def
      split_beta CUBLAS_ERROR_FUNC_not_overflow world_simps split: option.split dest: CUBLAS_ERROR_FUNC_Some)

lemma nrm2_validates:
  "validates_before_submit n [incx] w result (nrm2 func w queue n x incx result)"
  by (simp add: validates_before_submit_def nrm2_def overflow_check_def outcome_defs Let_def
      split_beta CUBLAS_ERROR_FUNC_not_overflow world_simps split: option.split)

text \<open>
  Claim C1. Every level-1 routine that takes a count \<open>n\<close> and one or more strides
  (asum, scal, axpy, rotm, copy, dot, rot, sdsdot, the mixed-precision dot, iamax,
  swap, iamin, nrm2) checks \<open>n * max |stride|\<close> first: when the product does not fit
  the native integer the routine ends in \<open>OverflowError\<close> and the shared state is
  untouched, so nothing was submitted; when it fits, the routine submits its command
  group and does not end in \<open>OverflowError\<close>.
\<close>

theorem overflow_checked_before_submit:
  "(\<forall>func w queue n x incx result.
      validates_before_submit n [incx] w result (asum func w queue n x incx result)) \<and>
   (\<forall>func w queue n a x incx.
      validates_before_submit n [incx] w x (scal func w queue n a x incx)) \<and>
   (\<forall>func w queue n alpha x incx y incy.
      validates_before_submit n [incx, incy] w y (axpy func w queue n alpha x incx y incy)) \<and>
   (\<forall>func w queue n x incx y incy param.
      validates_before_submit n [incx, incy] w (x, y) (rotm func w queue n x incx y incy param)) \<and>
   (\<forall>func w queue n x incx y incy.
      validates_before_submit n [incx, incy] w y (copy func w queue n x incx y incy)) \<and>
   (\<forall>func w queue n x incx y incy result.
      validates_before_submit n [incx, incy] w result (dot func w queue n x incx y incy result)) \<and>
   (\<forall>func w queue n x incx y incy c s.
      validates_before_submit n [incx, incy] w (x, y) (rot func w queue n x incx y incy c s)) \<and>
   (\<forall>cublasSdot w queue n sb x incx y incy result.
      validates_before_submit n [incx, incy] w result (sdsdot cublasSdot w queue n sb x incx y incy result)) \<and>
   (\<forall>cublasSdot to_double w queue n x incx y incy result.
      validates_before_submit n [incx, incy] w result (dot_mixed cublasSdot to_double w queue n x incx y incy result)) \<and>
   (\<forall>func w queue n x incx result.
      validates_before_submit n [incx] w result (iamax func w queue n x incx result)) \<and>
   (\<forall>func w queue n x incx y incy.
      validates_before_submit n [incx, incy] w (x, y) (swap func w queue n x incx y incy)) \<and>
   (\<forall>func w queue n x incx result.
      validates_before_submit n [incx] w result (iamin func w queue n x incx result)) \<and>
   (\<forall>func w queue n x incx result.
      validates_before_submit n [incx] w result (nrm2 func w queue n x incx result))"
  by (intro conjI allI asum_validates
      scal_validates
      axpy_validates
      rotm_validates
      copy_validates
      dot_validates
      rot_validates
      sdsdot_validates
      dot_mixed_validates
      iamax_validates
      swap_validates
      iamin_validates
      nrm2_validates)

theorem overflow_checked_before_submit_witness:
  "\<not> native_int_fits (sint (2147483648 :: int64_t) * max_abs_stride [1]) \<and>
   asum ref_asum fresh_world q0
     2147483648 [- 3, 4, - 5] 1 [0] = (Some OverflowError, fresh_world, [0]) \<and>
   native_int_fits (sint (3 :: int64_t) * max_abs_stride [1]) \<and>
   fault_of (asum ref_asum fresh_world q0
     3 [- 3, 4, - 5] 1 [0]) \<noteq> Some OverflowError \<and>
   submitted (world_of (asum ref_asum
     fresh_world q0 3 [- 3, 4, - 5] 1 [0])) = 1"
proof -
  note all = overflow_checked_before_submit [THEN conjunct1, rule_format]
  have big: "\<not> native_int_fits (sint (2147483648 :: int64_t) * max_abs_stride [1])"
    by (simp add: native_int_fits_def max_abs_stride_simps)
  have small: "native_int_fits (sint (3 :: int64_t) * max_abs_stride [1])"
    by (simp add: native_int_fits_def max_abs_stride_simps)
  show ?thesis
    using big small
      all [where n = 2147483648 and incx = 1 and w = fresh_world and result = "[0]"
        and func = "ref_asum" and queue = q0
        and x = "[- 3, 4, - 5]"]
      all [where n = 3 and incx = 1 and w = fresh_world and result = "[0]"
        and func = "ref_asum" and queue = q0
        and x = "[- 3, 4, - 5]"]
    by (simp add: validates_before_submit_def fresh_world_def)
qed

section \<open>One checked vendor call\<close>





















section \<open>The pointer mode of the shared handle\<close>

lemma asum_device_mode:
  "overflow_check n [incx] = None \<Longrightarrow> device_mode_call w queue (asum func w queue n x incx result)"
  by (simp add: device_mode_call_def asum_def outcome_defs Let_def split_beta CUBLAS_ERROR_FUNC_def CUBLAS_STATUS_SUCCESS_def world_simps)

lemma asum_keeps_device:
  "keeps_device_mode w queue (asum func w queue n x incx result)"
  by (simp add: keeps_device_mode_def asum_def outcome_defs Let_def split_beta CUBLAS_ERROR_FUNC_def CUBLAS_STATUS_SUCCESS_def world_simps split: option.split)

lemma scal_no_switch:
  "overflow_check n [incx] = None \<Longrightarrow> no_mode_switch w queue (scal func w queue n a x incx)"
  by (simp add: no_mode_switch_def scal_def outcome_defs Let_def split_beta CUBLAS_ERROR_FUNC_def CUBLAS_STATUS_SUCCESS_def world_simps)

lemma scal_keeps_device:
  "keeps_device_mode w queue (scal func w queue n a x incx)"
  by (simp add: keeps_device_mode_def scal_def outcome_defs Let_def split_beta CUBLAS_ERROR_FUNC_def CUBLAS_STATUS_SUCCESS_def world_simps split: option.split)

lemma axpy_no_switch:
  "overflow_check n [incx, incy] = None \<Longrightarrow> no_mode_switch w queue (axpy func w queue n alpha x incx y incy)"
  by (simp add: no_mode_switch_def axpy_def outcome_defs Let_def split_beta CUBLAS_ERROR_FUNC_def CUBLAS_STATUS_SUCCESS_def world_simps)

lemma axpy_keeps_device:
  "keeps_device_mode w queue (axpy func w queue n alpha x incx y incy)"
  by (simp add: keeps_device_mode_def axpy_def outcome_defs Let_def split_beta CUBLAS_ERROR_FUNC_def CUBLAS_STATUS_SUCCESS_def world_simps split: option.split)

lemma rotg_device_mode:
  "device_mode_call w queue (rotg func w queue a b c s)"
  by (simp add: device_mode_call_def rotg_def outcome_defs Let_def split_beta CUBLAS_ERROR_FUNC_def CUBLAS_STATUS_SUCCESS_def world_simps)

lemma rotg_keeps_device:
  "keeps_device_mode w queue (rotg func w queue a b c s)"
  by (simp add: keeps_device_mode_def rotg_def outcome_defs Let_def split_beta CUBLAS_ERROR_FUNC_def CUBLAS_STATUS_SUCCESS_def world_simps split: option.split)

lemma rotm_device_mode:
  "overflow_check n [incx, incy] = None \<Longrightarrow> device_mode_call w queue (rotm func w queue n x incx y incy param)"
  by (simp add: device_mode_call_def rotm_def outcome_defs Let_def split_beta CUBLAS_ERROR_FUNC_def CUBLAS_STATUS_SUCCESS_def world_simps)

lemma rotm_keeps_device:
  "keeps_device_mode w queue (rotm func w queue n x incx y incy param)"
  by (simp add: keeps_device_mode_def rotm_def outcome_defs Let_def split_beta CUBLAS_ERROR_FUNC_def CUBLAS_STATUS_SUCCESS_def world_simps split: option.split)

lemma copy_no_switch:
  "overflow_check n [incx, incy] = None \<Longrightarrow> no_mode_switch w queue (copy func w queue n x incx y incy)"
  by (simp add: no_mode_switch_def copy_def outcome_defs Let_def split_beta CUBLAS_ERROR_FUNC_def CUBLAS_STATUS_SUCCESS_def world_simps)

lemma copy_keeps_device:
  "keeps_device_mode w queue (copy func w queue n x incx y incy)"
  by (simp add: keeps_device_mode_def copy_def outcome_defs Let_def split_beta CUBLAS_ERROR_FUNC_def CUBLAS_STATUS_SUCCESS_def world_simps split: option.split)

lemma dot_device_mode:
  "overflow_check n [incx, incy] = None \<Longrightarrow> device_mode_call w queue (dot func w queue n x incx y incy result)"
  by (simp add: device_mode_call_def dot_def outcome_defs Let_def split_beta CUBLAS_ERROR_FUNC_def CUBLAS_STATUS_SUCCESS_def world_simps)

lemma dot_keeps_device:
  "keeps_device_mode w queue (dot func w queue n x incx y incy result)"
  by (simp add: keeps_device_mode_def dot_def outcome_defs Let_def split_beta CUBLAS_ERROR_FUNC_def CUBLAS_STATUS_SUCCESS_def world_simps split: option.split)

lemma rot_no_switch:
  "overflow_check n [incx, incy] = None \<Longrightarrow> no_mode_switch w queue (rot func w queue n x incx y incy c s)"
  by (simp add: no_mode_switch_def rot_def outcome_defs Let_def split_beta CUBLAS_ERROR_FUNC_def CUBLAS_STATUS_SUCCESS_def world_simps)

lemma rot_keeps_device:
  "keeps_device_mode w queue (rot func w queue n x incx y incy c s)"
  by (simp add: keeps_device_mode_def rot_def outcome_defs Let_def split_beta CUBLAS_ERROR_FUNC_def CUBLAS_STATUS_SUCCESS_def world_simps split: option.split)

lemma sdsdot_device_mode:
  "overflow_check n [incx, incy] = None \<Longrightarrow> device_mode_call w queue (sdsdot cublasSdot w queue n sb x incx y incy result)"
  by (simp add: device_mode_call_def sdsdot_def outcome_defs Let_def split_beta CUBLAS_ERROR_FUNC_def CUBLAS_STATUS_SUCCESS_def world_simps)

lemma sdsdot_keeps_device:
  "keeps_device_mode w queue (sdsdot cublasSdot w queue n sb x incx y incy result)"
  by (simp add: keeps_device_mode_def sdsdot_def outcome_defs Let_def split_beta CUBLAS_ERROR_FUNC_def CUBLAS_STATUS_SUCCESS_def world_simps split: option.split)

lemma dot_mixed_device_mode:
  "overflow_check n [incx, incy] = None \<Longrightarrow> device_mode_call w queue (dot_mixed cublasSdot to_double w queue n x incx y incy result)"
  by (simp add: device_mode_call_def dot_mixed_def outcome_defs Let_def split_beta CUBLAS_ERROR_FUNC_def CUBLAS_STATUS_SUCCESS_def world_simps)

lemma dot_mixed_keeps_device:
  "keeps_device_mode w queue (dot_mixed cublasSdot to_double w queue n x incx y incy result)"
  by (simp add: keeps_device_mode_def dot_mixed_def outcome_defs Let_def split_beta CUBLAS_ERROR_FUNC_def CUBLAS_STATUS_SUCCESS_def world_simps split: option.split)

lemma rotmg_device_mode:
  "device_mode_call w queue (rotmg func w queue d1 d2 x1 y1 param)"
  by (simp add: device_mode_call_def rotmg_def outcome_defs Let_def split_beta CUBLAS_ERROR_FUNC_def CUBLAS_STATUS_SUCCESS_def world_simps)

lemma rotmg_keeps_device:
  "keeps_device_mode w queue (rotmg func w queue d1 d2 x1 y1 param)"
  by (simp add: keeps_device_mode_def rotmg_def outcome_defs Let_def split_beta CUBLAS_ERROR_FUNC_def CUBLAS_STATUS_SUCCESS_def world_simps split: option.split)

lemma iamax_device_mode:
  "overflow_check n [incx] = None \<Longrightarrow> device_mode_call w queue (iamax func w queue n x incx result)"
  by (simp add: device_mode_call_def iamax_def outcome_defs Let_def split_beta CUBLAS_ERROR_FUNC_def CUBLAS_STATUS_SUCCESS_def world_simps)

lemma iamax_keeps_device:
  "keeps_device_mode w queue (iamax func w queue n x incx result)"
  by (simp add: keeps_device_mode_def iamax_def outcome_defs Let_def split_beta CUBLAS_ERROR_FUNC_def CUBLAS_STATUS_SUCCESS_def world_simps split: option.split)

lemma swap_no_switch:
  "overflow_check n [incx, incy] = None \<Longrightarrow> no_mode_switch w queue (swap func w queue n x incx y incy)"
  by (simp add: no_mode_switch_def swap_def outcome_defs Let_def split_beta CUBLAS_ERROR_FUNC_def CUBLAS_STATUS_SUCCESS_def world_simps)

lemma swap_keeps_device:
  "keeps_device_mode w queue (swap func w queue n x incx y incy)"
  by (simp add: keeps_device_mode_def swap_def outcome_defs Let_def split_beta CUBLAS_ERROR_FUNC_def CUBLAS_STATUS_SUCCESS_def world_simps split: option.split)

lemma iamin_device_mode:
  "overflow_check n [incx] = None \<Longrightarrow> device_mode_call w queue (iamin func w queue n x incx result)"
  by (simp add: device_mode_call_def iamin_def outcome_defs Let_def split_beta CUBLAS_ERROR_FUNC_def CUBLAS_STATUS_SUCCESS_def world_simps)

lemma iamin_keeps_device:
  "keeps_device_mode w queue (iamin func w queue n x incx result)"
  by (simp add: keeps_device_mode_def iamin_def outcome_defs Let_def split_beta CUBLAS_ERROR_FUNC_def CUBLAS_STATUS_SUCCESS_def world_simps split: option.split)

lemma nrm2_device_mode:
  "overflow_check n [incx] = None \<Longrightarrow> device_mode_call w queue (nrm2 func w queue n x incx result)"
  by (simp add: device_mode_call_def nrm2_def outcome_defs Let_def split_beta CUBLAS_ERROR_FUNC_def CUBLAS_STATUS_SUCCESS_def world_simps)

lemma nrm2_keeps_device:
  "keeps_device_mode w queue (nrm2 func w queue n x incx result)"
  by (simp add: keeps_device_mode_def nrm2_def outcome_defs Let_def split_beta CUBLAS_ERROR_FUNC_def CUBLAS_STATUS_SUCCESS_def world_simps split: option.split)

text \<open>
  Claim C3, as amended. Every routine that writes a scalar result into device memory
  (asum, dot with sdsdot and the mixed-precision dot, nrm2, rotg, rotmg) puts the
  shared handle into device
  pointer mode before its one vendor call, whatever mode the handle was in when the
  routine began: the call is issued in device mode. The switch is not undone: after
  the routine the handle of the queue's context is still in device pointer mode.
\<close>

theorem device_mode_set_before_call:
  "(\<forall>func w queue n x incx result.
      overflow_check n [incx] = None \<longrightarrow>
        device_mode_call w queue (asum func w queue n x incx result)) \<and>
   (\<forall>func w queue a b c s.
      device_mode_call w queue (rotg func w queue a b c s)) \<and>
   (\<forall>func w queue n x incx y incy result.
      overflow_check n [incx, incy] = None \<longrightarrow>
        device_mode_call w queue (dot func w queue n x incx y incy result)) \<and>
   (\<forall>func w queue d1 d2 x1 y1 param.
      device_mode_call w queue (rotmg func w queue d1 d2 x1 y1 param)) \<and>
   (\<forall>func w queue n x incx result.
      overflow_check n [incx] = None \<longrightarrow>
        device_mode_call w queue (nrm2 func w queue n x incx result)) \<and>
   (\<forall>cublasSdot w queue n sb x incx y incy result.
      overflow_check n [incx, incy] = None \<longrightarrow>
        device_mode_call w queue (sdsdot cublasSdot w queue n sb x incx y incy result)) \<and>
   (\<forall>cublasSdot to_double w queue n x incx y incy result.
      overflow_check n [incx, incy] = None \<longrightarrow>
        device_mode_call w queue
          (dot_mixed cublasSdot to_double w queue n x incx y incy result))"
  by (intro conjI allI impI asum_device_mode rotg_device_mode dot_device_mode
      rotmg_device_mode nrm2_device_mode sdsdot_device_mode dot_mixed_device_mode)

theorem device_mode_set_before_call_witness:
  "overflow_check 3 [1] = None \<and>
   mode_at_call (last_call (asum ref_asum
     fresh_world q0 3 [- 3, 4, - 5] 1 [0])) = CUBLAS_POINTER_MODE_DEVICE \<and>
   context_mode (world_of (asum ref_asum
     fresh_world q0 3 [- 3, 4, - 5] 1 [0])) (native_context q0) = CUBLAS_POINTER_MODE_DEVICE"
proof -
  note all = device_mode_set_before_call [THEN conjunct1, rule_format]
  have ok: "overflow_check 3 [1] = None"
    by (simp add: overflow_check_def native_int_fits_def max_abs_stride_simps)
  show ?thesis
    using ok
      all [where n = 3 and incx = 1 and w = fresh_world and result = "[0]"
        and func = "ref_asum"
        and queue = q0 and x = "[- 3, 4, - 5]"]
    by (simp add: device_mode_call_def)
qed

text \<open>
  Claim C3 as stated has the switch hold for the duration of the call only. On a
  handle that is cached in host pointer mode, asum returns without a fault and leaves
  the handle in device pointer mode.
\<close>

theorem device_mode_outlives_call:
  "handle_cache (snd (get_handle q0 fresh_world)) (native_context q0) = Some 0 \<and>
   pointer_mode (snd (get_handle q0 fresh_world)) 0 = CUBLAS_POINTER_MODE_HOST \<and>
   fault_of (asum ref_asum
     (snd (get_handle q0 fresh_world)) q0 3 [- 3, 4, - 5] 1 [0]) = None \<and>
   pointer_mode (world_of (asum ref_asum
     (snd (get_handle q0 fresh_world)) q0 3 [- 3, 4, - 5] 1 [0])) 0 =
     CUBLAS_POINTER_MODE_DEVICE"
  by (simp add: asum_def overflow_check_def native_int_fits_def max_abs_stride_simps
      outcome_defs Let_def split_beta CUBLAS_ERROR_FUNC_def ref_asum_def get_handle_def
      fresh_world_def queue_submit_def cublasSetPointerMode_def native_call_made_def)

text \<open>
  Claim C9. No routine sets the pointer mode of the shared handle back to host: a
  handle in device pointer mode before any of the routines is in device pointer mode
  after it. The routines that pass scalars by host address (scal, axpy, rot) do not
  switch the mode: their vendor call is issued in the mode the handle is in. Every
  routine with a scalar result leaves the handle in device pointer mode. So after such
  a routine, scal, axpy and rot on the same context issue their vendor call in device
  pointer mode.
\<close>

theorem pointer_mode_never_restored:
  "(\<forall>func w queue n x incx result.
      keeps_device_mode w queue (asum func w queue n x incx result)) \<and>
   (\<forall>func w queue n a x incx.
      keeps_device_mode w queue (scal func w queue n a x incx)) \<and>
   (\<forall>func w queue n alpha x incx y incy.
      keeps_device_mode w queue (axpy func w queue n alpha x incx y incy)) \<and>
   (\<forall>func w queue a b c s.
      keeps_device_mode w queue (rotg func w queue a b c s)) \<and>
   (\<forall>func w queue n x incx y incy param.
      keeps_device_mode w queue (rotm func w queue n x incx y incy param)) \<and>
   (\<forall>func w queue n x incx y incy.
      keeps_device_mode w queue (copy func w queue n x incx y incy)) \<and>
   (\<forall>func w queue n x incx y incy result.
      keeps_device_mode w queue (dot func w queue n x incx y incy result)) \<and>
   (\<forall>func w queue n x incx y incy c s.
      keeps_device_mode w queue (rot func w queue n x incx y incy c s)) \<and>
   (\<forall>cublasSdot w queue n sb x incx y incy result.
      keeps_device_mode w queue (sdsdot cublasSdot w queue n sb x incx y incy result)) \<and>
   (\<forall>cublasSdot to_double w queue n x incx y incy result.
      keeps_device_mode w queue (dot_mixed cublasSdot to_double w queue n x incx y incy result)) \<and>
   (\<forall>func w queue d1 d2 x1 y1 param.
      keeps_device_mode w queue (rotmg func w queue d1 d2 x1 y1 param)) \<and>
   (\<forall>func w queue n x incx result.
      keeps_device_mode w queue (iamax func w queue n x incx result)) \<and>
   (\<forall>func w queue n x incx y incy.
      keeps_device_mode w queue (swap func w queue n x incx y incy)) \<and>
   (\<forall>func w queue n x incx result.
      keeps_device_mode w queue (iamin func w queue n x incx result)) \<and>
   (\<forall>func w queue n x incx result.
      keeps_device_mode w queue (nrm2 func w queue n x incx result)) \<and>
   (\<forall>func w queue n a x incx.
      overflow_check n [incx] = None \<longrightarrow>
        no_mode_switch w queue (scal func w queue n a x incx)) \<and>
   (\<forall>func w queue n alpha x incx y incy.
      overflow_check n [incx, incy] = None \<longrightarrow>
        no_mode_switch w queue (axpy func w queue n alpha x incx y incy)) \<and>
   (\<forall>func w queue n x incx y incy c s.
      overflow_check n [incx, incy] = None \<longrightarrow>
        no_mode_switch w queue (rot func w queue n x incx y incy c s)) \<and>
   (\<forall>func w queue n x incx result.
      overflow_check n [incx] = None \<longrightarrow>
        device_mode_call w queue (asum func w queue n x incx result)) \<and>
   (\<forall>func w queue a b c s.
      device_mode_call w queue (rotg func w queue a b c s)) \<and>
   (\<forall>func w queue n x incx y incy param.
      overflow_check n [incx, incy] = None \<longrightarrow>
        device_mode_call w queue (rotm func w queue n x incx y incy param)) \<and>
   (\<forall>func w queue n x incx y incy result.
      overflow_check n [incx, incy] = None \<longrightarrow>
        device_mode_call w queue (dot func w queue n x incx y incy result)) \<and>
   (\<forall>cublasSdot w queue n sb x incx y incy result.
      overflow_check n [incx, incy] = None \<longrightarrow>
        device_mode_call w queue (sdsdot cublasSdot w queue n sb x incx y incy result)) \<and>
   (\<forall>cublasSdot to_double w queue n x incx y incy result.
      overflow_check n [incx, incy] = None \<longrightarrow>
        device_mode_call w queue (dot_mixed cublasSdot to_double w queue n x incx y incy result)) \<and>
   (\<forall>func w queue d1 d2 x1 y1 param.
      device_mode_call w queue (rotmg func w queue d1 d2 x1 y1 param)) \<and>
   (\<forall>func w queue n x incx result.
      overflow_check n [incx] = None \<longrightarrow>
        device_mode_call w queue (iamax func w queue n x incx result)) \<and>
   (\<forall>func w queue n x incx result.
      overflow_check n [incx] = None \<longrightarrow>
        device_mode_call w queue (iamin func w queue n x incx result)) \<and>
   (\<forall>func w queue n x incx result.
      overflow_check n [incx] = None \<longrightarrow>
        device_mode_call w queue (nrm2 func w queue n x incx result))"
  by (intro conjI allI impI asum_keeps_device
      scal_keeps_device
      axpy_keeps_device
      rotg_keeps_device
      rotm_keeps_device
      copy_keeps_device
      dot_keeps_device
      rot_keeps_device
      sdsdot_keeps_device
      dot_mixed_keeps_device
      rotmg_keeps_device
      iamax_keeps_device
      swap_keeps_device
      iamin_keeps_device
      nrm2_keeps_device
      scal_no_switch
      axpy_no_switch
      rot_no_switch
      asum_device_mode
      rotg_device_mode
      rotm_device_mode
      dot_device_mode
      sdsdot_device_mode
      dot_mixed_device_mode
      rotmg_device_mode
      iamax_device_mode
      iamin_device_mode
      nrm2_device_mode)


theorem pointer_mode_never_restored_witness:
  "overflow_check 3 [1] = None \<and>
   mode_at_call (last_call (scal ref_scal
     fresh_world q0 3 2 [1, 2, 3] 1)) = CUBLAS_POINTER_MODE_HOST \<and>
   mode_at_call (last_call (scal ref_scal
     (world_of (asum ref_asum
        fresh_world q0 3 [- 3, 4, - 5] 1 [0])) q0 3 2 [1, 2, 3] 1)) =
     CUBLAS_POINTER_MODE_DEVICE \<and>
   context_mode (world_of (scal ref_scal
     (world_of (asum ref_asum
        fresh_world q0 3 [- 3, 4, - 5] 1 [0])) q0 3 2 [1, 2, 3] 1)) (native_context q0) =
     CUBLAS_POINTER_MODE_DEVICE"
proof -
  note keeps = pointer_mode_never_restored [THEN conjunct2, THEN conjunct1, rule_format]
  note same = pointer_mode_never_restored [THEN conjunct2, THEN conjunct2, THEN conjunct2,
      THEN conjunct2, THEN conjunct2, THEN conjunct2, THEN conjunct2, THEN conjunct2,
      THEN conjunct2, THEN conjunct2, THEN conjunct2, THEN conjunct2, THEN conjunct2,
      THEN conjunct2, THEN conjunct2, THEN conjunct1, rule_format]
  note device = pointer_mode_never_restored [THEN conjunct2, THEN conjunct2,
      THEN conjunct2, THEN conjunct2, THEN conjunct2, THEN conjunct2, THEN conjunct2,
      THEN conjunct2, THEN conjunct2, THEN conjunct2, THEN conjunct2, THEN conjunct2,
      THEN conjunct2, THEN conjunct2, THEN conjunct2, THEN conjunct2, THEN conjunct2,
      THEN conjunct2, THEN conjunct1, rule_format]
  let ?asum = "asum ref_asum
     fresh_world q0 3 [- 3, 4, - 5] 1 [0]"
  have ok: "overflow_check 3 [1] = None"
    by (simp add: overflow_check_def native_int_fits_def max_abs_stride_simps)
  have fresh: "context_mode fresh_world (native_context q0) = CUBLAS_POINTER_MODE_HOST"
    by (simp add: context_mode_def fresh_world_def)
  have after_asum: "context_mode (world_of ?asum) (native_context q0) =
      CUBLAS_POINTER_MODE_DEVICE"
    using ok
      device [where n = 3 and incx = 1 and w = fresh_world and result = "[0]"
        and func = "ref_asum"
        and queue = q0 and x = "[- 3, 4, - 5]"]
    by (simp add: device_mode_call_def)
  show ?thesis
    using ok fresh after_asum
      same [where n = 3 and incx = 1 and w = fresh_world and a = 2 and x = "[1, 2, 3]"
        and func = "ref_scal" and queue = q0]
      same [where n = 3 and incx = 1 and w = "world_of ?asum" and a = 2 and x = "[1, 2, 3]"
        and func = "ref_scal" and queue = q0]
      keeps [where n = 3 and incx = 1 and w = "world_of ?asum" and a = 2 and x = "[1, 2, 3]"
        and func = "ref_scal" and queue = q0]
    by (simp add: no_mode_switch_def keeps_device_mode_def)
qed


section \<open>The index routines\<close>

lemma map_sint_index_update:
  "map sint (result[0 := std_max (scast (r :: c_int) - 1) (0 :: int64_t)]) =
     (map sint result)[0 := max (sint r - 1) 0]"
  by (simp add: map_update sint_index_conversion)

lemma iamax_converted:
  "overflow_check n [incx] = None \<Longrightarrow>
   fst (func CUBLAS_POINTER_MODE_DEVICE n x incx) = CUBLAS_STATUS_SUCCESS \<Longrightarrow>
   index_converted (snd (func CUBLAS_POINTER_MODE_DEVICE n x incx)) result
     (iamax func w queue n x incx result)"
  by (simp add: index_converted_def iamax_def outcome_defs Let_def split_beta
      CUBLAS_ERROR_FUNC_def world_simps map_sint_index_update)

lemma iamin_converted:
  "overflow_check n [incx] = None \<Longrightarrow>
   fst (func CUBLAS_POINTER_MODE_DEVICE n x incx) = CUBLAS_STATUS_SUCCESS \<Longrightarrow>
   index_converted (snd (func CUBLAS_POINTER_MODE_DEVICE n x incx)) result
     (iamin func w queue n x incx result)"
  by (simp add: index_converted_def iamin_def outcome_defs Let_def split_beta
      CUBLAS_ERROR_FUNC_def world_simps map_sint_index_update)

lemma iamax_nonpositive_stride:
  assumes "zero_index_contract (func)" and "sint incx \<le> 0"
  shows "zero_if_written result (iamax func w queue n x incx result)"
proof (cases "overflow_check n [incx]")
  case None
  with assms have "snd (func CUBLAS_POINTER_MODE_DEVICE n x incx) = 0"
    by (simp add: zero_index_contract_def)
  with None show ?thesis
    by (simp add: zero_if_written_def iamax_def outcome_defs Let_def split_beta
        world_simps std_max_def split: option.split)
next
  case (Some e)
  then show ?thesis
    by (simp add: zero_if_written_def iamax_def outcome_defs)
qed

lemma iamin_nonpositive_stride:
  assumes "zero_index_contract (func)" and "sint incx \<le> 0"
  shows "zero_if_written result (iamin func w queue n x incx result)"
proof (cases "overflow_check n [incx]")
  case None
  with assms have "snd (func CUBLAS_POINTER_MODE_DEVICE n x incx) = 0"
    by (simp add: zero_index_contract_def)
  with None show ?thesis
    by (simp add: zero_if_written_def iamin_def outcome_defs Let_def split_beta
        world_simps std_max_def split: option.split)
next
  case (Some e)
  then show ?thesis
    by (simp add: zero_if_written_def iamin_def outcome_defs)
qed

text \<open>
  Claim C2. For every element type, iamax and iamin have the vendor routine write a
  32-bit \<^verbatim>\<open>int\<close> of their own, and when the call succeeds they store
  \<open>max (narrow - 1) 0\<close>, as a 64-bit integer, in element 0 of the caller's buffer. With a
  vendor routine that returns the index 0 for a non-positive stride, as documented,
  the value written for a non-positive stride \<open>incx\<close> is 0 for every input vector.
\<close>

theorem index_result_zero_based:
  "(\<forall>func w queue n x incx result.
      overflow_check n [incx] = None \<longrightarrow>
      fst (func CUBLAS_POINTER_MODE_DEVICE n x incx) = CUBLAS_STATUS_SUCCESS \<longrightarrow>
        index_converted (snd (func CUBLAS_POINTER_MODE_DEVICE n x incx)) result
          (iamax func w queue n x incx result)) \<and>
   (\<forall>func w queue n x incx result.
      overflow_check n [incx] = None \<longrightarrow>
      fst (func CUBLAS_POINTER_MODE_DEVICE n x incx) = CUBLAS_STATUS_SUCCESS \<longrightarrow>
        index_converted (snd (func CUBLAS_POINTER_MODE_DEVICE n x incx)) result
          (iamin func w queue n x incx result)) \<and>
   (\<forall>func w queue n x incx result.
      zero_index_contract (func) \<longrightarrow> sint incx \<le> 0 \<longrightarrow>
        zero_if_written result (iamax func w queue n x incx result)) \<and>
   (\<forall>func w queue n x incx result.
      zero_index_contract (func) \<longrightarrow> sint incx \<le> 0 \<longrightarrow>
        zero_if_written result (iamin func w queue n x incx result))"
  by (intro conjI allI impI iamax_converted iamin_converted
      iamax_nonpositive_stride iamin_nonpositive_stride)

theorem index_result_zero_based_witness:
  "overflow_check 3 [1] = None \<and> overflow_check 3 [- 1] = None \<and>
   zero_index_contract ref_iamax \<and> sint (- 1 :: int64_t) \<le> 0 \<and>
   fault_of (iamax ref_iamax fresh_world q0
     3 [1, - 9, 3] 1 [5]) = None \<and>
   map sint (buffers_of (iamax ref_iamax
     fresh_world q0 3 [1, - 9, 3] 1 [5])) = [1] \<and>
   fault_of (iamax ref_iamax fresh_world q0
     3 [1, - 9, 3] (- 1) [5]) = None \<and>
   buffers_of (iamax ref_iamax fresh_world q0
     3 [1, - 9, 3] (- 1) [5]) = [0]"
proof -
  note conv = index_result_zero_based [THEN conjunct1, rule_format]
  note zero = index_result_zero_based [THEN conjunct2, THEN conjunct2, THEN conjunct1,
      rule_format]
  let ?f = "ref_iamax"
  have ok: "overflow_check 3 [1] = None" "overflow_check 3 [- 1] = None"
    by (simp_all add: overflow_check_def native_int_fits_def max_abs_stride_simps)
  have contract: "zero_index_contract ref_iamax"
    by (simp add: zero_index_contract_def ref_iamax_def)
  have status: "fst (ref_iamax m n x incx) = CUBLAS_STATUS_SUCCESS" for m n x incx
    by (simp add: ref_iamax_def)
  have found: "snd (ref_iamax CUBLAS_POINTER_MODE_DEVICE 3 [1, - 9, 3] 1) = 2"
    by (simp add: ref_iamax_def strided_def blas_index_def first_index_of_max_def upt_rec)
  have forward: "index_converted 2 [5] (iamax ?f fresh_world q0 3 [1, - 9, 3] 1 [5])"
    using conv [where func = ?f and n = 3 and x = "[1, - 9, 3]" and incx = 1
        and result = "[5]" and w = fresh_world and queue = q0] ok status found
    by simp
  have backward: "index_converted 0 [5] (iamax ?f fresh_world q0 3 [1, - 9, 3] (- 1) [5])"
    using conv [where func = ?f and n = 3 and x = "[1, - 9, 3]" and incx = "- 1"
        and result = "[5]" and w = fresh_world and queue = q0] ok status
    by (simp add: ref_iamax_def)
  have written: "zero_if_written [5] (iamax ?f fresh_world q0 3 [1, - 9, 3] (- 1) [5])"
    using zero [where func = ?f and n = 3 and x = "[1, - 9, 3]" and incx = "- 1"
        and result = "[5]" and w = fresh_world and queue = q0] contract
    by simp
  show ?thesis
    using ok contract forward backward written
    by (simp add: index_converted_def zero_if_written_def std_max_def)
qed

section \<open>The two routines finished on the host\<close>

lemma update_then_add: "xs[0 := xs[0 := v] ! 0 + sb] = xs[0 := v + sb]"
  by (cases xs) simp_all

lemma sdsdot_result:
  assumes "overflow_check n [incx, incy] = None"
    and "fst (cublasSdot CUBLAS_POINTER_MODE_DEVICE n x incx y incy) = CUBLAS_STATUS_SUCCESS"
  shows "fault_of (sdsdot cublasSdot w queue n sb x incx y incy result) = None"
    and "buffers_of (sdsdot cublasSdot w queue n sb x incx y incy result) =
      result[0 := snd (cublasSdot CUBLAS_POINTER_MODE_DEVICE n x incx y incy) + sb]"
    and "routine (last_call (sdsdot cublasSdot w queue n sb x incx y incy result)) =
      ''cublasSdot''"
    and "int_args (last_call (sdsdot cublasSdot w queue n sb x incx y incy result)) =
      [n, incx, incy]"
  using assms
  by (simp_all add: sdsdot_def outcome_defs Let_def split_beta CUBLAS_ERROR_FUNC_def
      world_simps update_then_add)

lemma sdsdot_scenario:
  "overflow_check 3 [1, 1] = None"
  "ref_dot CUBLAS_POINTER_MODE_DEVICE 3 [1, 2, 3] 1 [4, 5, 6 :: real] 1 =
     (CUBLAS_STATUS_SUCCESS, 32)"
  by (simp_all add: overflow_check_def native_int_fits_def max_abs_stride_simps ref_dot_def
      strided_def blas_index_def upt_rec)

text \<open>
  Claim C4. sdsdot has the vendor's single-precision dot product of \<open>x\<close> and \<open>y\<close>
  written to element 0 of the result buffer and then, on the host, adds the scalar
  \<open>sb\<close> to that element. The host accessor comes after the command group, so the sum
  is taken over the value the vendor call wrote. With \<open>x = [1, 2, 3]\<close>, \<open>y = [4, 5, 6]\<close>,
  both strides 1 and \<open>sb = 0.5\<close> the result is 32.5 (all values of this run are exact in
  single precision; the element type here is the reals).
\<close>

theorem sdsdot_adds_host_scalar:
  "(\<forall>cublasSdot w queue n sb x incx y incy result.
      overflow_check n [incx, incy] = None \<longrightarrow>
      fst (cublasSdot CUBLAS_POINTER_MODE_DEVICE n x incx y incy) = CUBLAS_STATUS_SUCCESS \<longrightarrow>
        fault_of (sdsdot cublasSdot w queue n sb x incx y incy result) = None \<and>
        buffers_of (sdsdot cublasSdot w queue n sb x incx y incy result) =
          result[0 := snd (cublasSdot CUBLAS_POINTER_MODE_DEVICE n x incx y incy) + sb] \<and>
        routine (last_call (sdsdot cublasSdot w queue n sb x incx y incy result)) =
          ''cublasSdot'' \<and>
        int_args (last_call (sdsdot cublasSdot w queue n sb x incx y incy result)) =
          [n, incx, incy]) \<and>
   buffers_of (sdsdot ref_dot fresh_world q0 3 0.5 [1, 2, 3] 1 [4, 5, 6] 1 [0 :: real]) =
     [32.5]"
proof (intro conjI allI impI)
  show "buffers_of (sdsdot ref_dot fresh_world q0 3 0.5 [1, 2, 3] 1 [4, 5, 6] 1 [0 :: real]) =
     [32.5]"
    by (simp add: sdsdot_result(2) sdsdot_scenario)
qed (simp_all add: sdsdot_result)

theorem sdsdot_adds_host_scalar_witness:
  "overflow_check 2 [2, 1] = None \<and>
   fst (ref_dot CUBLAS_POINTER_MODE_DEVICE 2 [1, 0, 3] 2 [4, 5 :: real] 1) =
     CUBLAS_STATUS_SUCCESS \<and>
   fault_of (sdsdot ref_dot fresh_world q0 2 1 [1, 0, 3] 2 [4, 5] 1 [7, 8 :: real]) = None \<and>
   buffers_of (sdsdot ref_dot fresh_world q0 2 1 [1, 0, 3] 2 [4, 5] 1 [7, 8 :: real]) =
     [20, 8]"
proof -
  note general = sdsdot_adds_host_scalar [THEN conjunct1, rule_format]
  have ok: "overflow_check 2 [2, 1] = None"
    by (simp add: overflow_check_def native_int_fits_def max_abs_stride_simps)
  have run: "ref_dot CUBLAS_POINTER_MODE_DEVICE 2 [1, 0, 3] 2 [4, 5 :: real] 1 =
      (CUBLAS_STATUS_SUCCESS, 19)"
    by (simp add: ref_dot_def strided_def blas_index_def upt_rec)
  show ?thesis
    using ok run
      general [where cublasSdot = ref_dot and n = 2 and x = "[1, 0, 3 :: real]" and incx = 2
        and y = "[4, 5]" and incy = 1 and sb = 1 and result = "[7, 8]" and w = fresh_world
        and queue = q0]
    by simp
qed

lemma dot_mixed_result:
  assumes "overflow_check n [incx, incy] = None"
    and "fst (cublasSdot CUBLAS_POINTER_MODE_DEVICE n x incx y incy) = CUBLAS_STATUS_SUCCESS"
  shows "fault_of (dot_mixed cublasSdot to_double w queue n x incx y incy result) = None"
    and "buffers_of (dot_mixed cublasSdot to_double w queue n x incx y incy result) =
      result[0 := to_double (snd (cublasSdot CUBLAS_POINTER_MODE_DEVICE n x incx y incy))]"
    and "routine (last_call (dot_mixed cublasSdot to_double w queue n x incx y incy result)) =
      ''cublasSdot''"
    and "int_args (last_call (dot_mixed cublasSdot to_double w queue n x incx y incy result)) =
      [n, incx, incy]"
  using assms
  by (simp_all add: dot_mixed_def outcome_defs Let_def split_beta CUBLAS_ERROR_FUNC_def
      world_simps)

text \<open>
  Claim C5. The overload of dot with single-precision vectors and a double-precision
  result has the vendor's single-precision dot product written to a single-precision
  value of its own and stores the cast of that value in element 0 of the caller's
  double-precision buffer: the result is the widening of the single-precision product,
  whatever precision that product lost. The two element types and the cast are
  parameters.
\<close>

theorem dot_mixed_widens_single_result:
  "\<forall>cublasSdot to_double w queue n x incx y incy result.
     overflow_check n [incx, incy] = None \<longrightarrow>
     fst (cublasSdot CUBLAS_POINTER_MODE_DEVICE n x incx y incy) = CUBLAS_STATUS_SUCCESS \<longrightarrow>
       fault_of (dot_mixed cublasSdot to_double w queue n x incx y incy result) = None \<and>
       buffers_of (dot_mixed cublasSdot to_double w queue n x incx y incy result) =
         result[0 := to_double (snd (cublasSdot CUBLAS_POINTER_MODE_DEVICE n x incx y incy))] \<and>
       routine (last_call (dot_mixed cublasSdot to_double w queue n x incx y incy result)) =
         ''cublasSdot'' \<and>
       int_args (last_call (dot_mixed cublasSdot to_double w queue n x incx y incy result)) =
         [n, incx, incy]"
  by (intro conjI allI impI) (simp_all add: dot_mixed_result)

theorem dot_mixed_widens_single_result_witness:
  "overflow_check 3 [1, 1] = None \<and>
   fst (ref_dot CUBLAS_POINTER_MODE_DEVICE 3 [1, 2, 3] 1 [4, 5, 6 :: rat] 1) =
     CUBLAS_STATUS_SUCCESS \<and>
   fault_of (dot_mixed ref_dot real_of_rat fresh_world q0 3 [1, 2, 3] 1 [4, 5, 6] 1 [0]) =
     None \<and>
   buffers_of (dot_mixed ref_dot real_of_rat fresh_world q0 3 [1, 2, 3] 1 [4, 5, 6] 1 [0]) =
     [32]"
proof -
  note general = dot_mixed_widens_single_result [rule_format]
  have ok: "overflow_check 3 [1, 1] = None"
    by (simp add: overflow_check_def native_int_fits_def max_abs_stride_simps)
  have run: "ref_dot CUBLAS_POINTER_MODE_DEVICE 3 [1, 2, 3] 1 [4, 5, 6 :: rat] 1 =
      (CUBLAS_STATUS_SUCCESS, 32)"
    by (simp add: ref_dot_def strided_def blas_index_def upt_rec)
  show ?thesis
    using ok run
      general [where cublasSdot = ref_dot and n = 3 and x = "[1, 2, 3 :: rat]" and incx = 1
        and y = "[4, 5, 6]" and incy = 1 and to_double = real_of_rat and result = "[0]"
        and w = fresh_world and queue = q0]
    by simp
qed

section \<open>The strides handed to the vendor routine\<close>

lemma asum_abs_stride:
  "asum func w queue n x s result = asum func w queue n x (std_abs s) result"
  by (simp add: asum_def overflow_check_std_abs std_abs_idem cong: option.case_cong)

lemma nrm2_abs_stride:
  "nrm2 func w queue n x s result = nrm2 func w queue n x (std_abs s) result"
  by (simp add: nrm2_def overflow_check_std_abs std_abs_idem cong: option.case_cong)

lemma scal_abs_stride:
  "scal func w queue n a x s = scal func w queue n a x (std_abs s)"
  by (simp add: scal_def overflow_check_std_abs std_abs_idem cong: option.case_cong)

lemma asum_call:
  assumes "overflow_check n [s] = None"
  shows "int_args (last_call (asum func w queue n x s result)) = [n, std_abs s]"
    and "buffers_of (asum func w queue n x s result) =
      result[0 := snd (func CUBLAS_POINTER_MODE_DEVICE n x (std_abs s))]"
  using assms by (simp_all add: asum_def outcome_defs Let_def split_beta world_simps)

lemma nrm2_call:
  assumes "overflow_check n [s] = None"
  shows "int_args (last_call (nrm2 func w queue n x s result)) = [n, std_abs s]"
    and "buffers_of (nrm2 func w queue n x s result) =
      result[0 := snd (func CUBLAS_POINTER_MODE_DEVICE n x (std_abs s))]"
  using assms by (simp_all add: nrm2_def outcome_defs Let_def split_beta world_simps)

lemma scal_call:
  assumes "overflow_check n [s] = None"
  shows "int_args (last_call (scal func w queue n a x s)) = [n, std_abs s]"
    and "buffers_of (scal func w queue n a x s) =
      snd (func (context_mode w (native_context queue)) n a x (std_abs s))"
  using assms by (simp_all add: scal_def outcome_defs Let_def split_beta world_simps)

lemma dot_call:
  assumes "overflow_check n [incx, incy] = None"
  shows "int_args (last_call (dot func w queue n x incx y incy result)) = [n, incx, incy]"
    and "buffers_of (dot func w queue n x incx y incy result) =
      result[0 := snd (func CUBLAS_POINTER_MODE_DEVICE n x incx y incy)]"
  using assms by (simp_all add: dot_def outcome_defs Let_def split_beta world_simps)

lemma axpy_call:
  assumes "overflow_check n [incx, incy] = None"
  shows "int_args (last_call (axpy func w queue n alpha x incx y incy)) = [n, incx, incy]"
    and "buffers_of (axpy func w queue n alpha x incx y incy) =
      snd (func (context_mode w (native_context queue)) n alpha x incx y incy)"
  using assms by (simp_all add: axpy_def outcome_defs Let_def split_beta world_simps)

lemma copy_call:
  assumes "overflow_check n [incx, incy] = None"
  shows "int_args (last_call (copy func w queue n x incx y incy)) = [n, incx, incy]"
    and "buffers_of (copy func w queue n x incx y incy) =
      snd (func (context_mode w (native_context queue)) n x incx y incy)"
  using assms by (simp_all add: copy_def outcome_defs Let_def split_beta world_simps)

lemma swap_call:
  assumes "overflow_check n [incx, incy] = None"
  shows "int_args (last_call (swap func w queue n x incx y incy)) = [n, incx, incy]"
    and "buffers_of (swap func w queue n x incx y incy) =
      snd (func (context_mode w (native_context queue)) n x incx y incy)"
  using assms by (simp_all add: swap_def outcome_defs Let_def split_beta world_simps)

lemma rot_call:
  assumes "overflow_check n [incx, incy] = None"
  shows "int_args (last_call (rot func w queue n x incx y incy c s)) = [n, incx, incy]"
    and "buffers_of (rot func w queue n x incx y incy c s) =
      snd (func (context_mode w (native_context queue)) n x incx y incy c s)"
  using assms by (simp_all add: rot_def outcome_defs Let_def split_beta world_simps)

text \<open>
  Claim C6. asum and nrm2 hand the absolute value of the caller's stride to the
  vendor routine: the call is issued with \<open>|s|\<close>, the result written is what the vendor
  routine computes at \<open>|s|\<close>, and the whole outcome for a stride \<open>s\<close> is the outcome for
  \<open>|s|\<close>, for every vector and every stride, negative ones included (\<open>std_abs s\<close> is
  \<open>|s|\<close> for every stride but the least 64-bit integer). dot, axpy, copy, swap and rot hand the
  caller's strides to the vendor routine as they are, sign included: the call is
  issued with \<open>incx\<close> and \<open>incy\<close>, and what the routine returns is what the vendor
  routine computes at these strides.
\<close>

theorem stride_sign_convention:
  "(\<forall>func w queue n x s result.
      asum func w queue n x s result = asum func w queue n x (std_abs s) result \<and>
      (overflow_check n [s] = None \<longrightarrow>
         int_args (last_call (asum func w queue n x s result)) = [n, std_abs s] \<and>
         buffers_of (asum func w queue n x s result) =
           result[0 := snd (func CUBLAS_POINTER_MODE_DEVICE n x (std_abs s))])) \<and>
   (\<forall>func w queue n x s result.
      nrm2 func w queue n x s result = nrm2 func w queue n x (std_abs s) result \<and>
      (overflow_check n [s] = None \<longrightarrow>
         int_args (last_call (nrm2 func w queue n x s result)) = [n, std_abs s] \<and>
         buffers_of (nrm2 func w queue n x s result) =
           result[0 := snd (func CUBLAS_POINTER_MODE_DEVICE n x (std_abs s))])) \<and>
   (\<forall>s. sint s \<noteq> - (2 ^ 63) \<longrightarrow> sint (std_abs s) = \<bar>sint s\<bar>) \<and>
   (\<forall>func w queue n x incx y incy result.
      overflow_check n [incx, incy] = None \<longrightarrow>
        int_args (last_call (dot func w queue n x incx y incy result)) = [n, incx, incy] \<and>
        buffers_of (dot func w queue n x incx y incy result) =
          result[0 := snd (func CUBLAS_POINTER_MODE_DEVICE n x incx y incy)]) \<and>
   (\<forall>func w queue n alpha x incx y incy.
      overflow_check n [incx, incy] = None \<longrightarrow>
        int_args (last_call (axpy func w queue n alpha x incx y incy)) = [n, incx, incy] \<and>
        buffers_of (axpy func w queue n alpha x incx y incy) =
          snd (func (context_mode w (native_context queue)) n alpha x incx y incy)) \<and>
   (\<forall>func w queue n x incx y incy.
      overflow_check n [incx, incy] = None \<longrightarrow>
        int_args (last_call (copy func w queue n x incx y incy)) = [n, incx, incy] \<and>
        buffers_of (copy func w queue n x incx y incy) =
          snd (func (context_mode w (native_context queue)) n x incx y incy)) \<and>
   (\<forall>func w queue n x incx y incy.
      overflow_check n [incx, incy] = None \<longrightarrow>
        int_args (last_call (swap func w queue n x incx y incy)) = [n, incx, incy] \<and>
        buffers_of (swap func w queue n x incx y incy) =
          snd (func (context_mode w (native_context queue)) n x incx y incy)) \<and>
   (\<forall>func w queue n x incx y incy c s.
      overflow_check n [incx, incy] = None \<longrightarrow>
        int_args (last_call (rot func w queue n x incx y incy c s)) = [n, incx, incy] \<and>
        buffers_of (rot func w queue n x incx y incy c s) =
          snd (func (context_mode w (native_context queue)) n x incx y incy c s))"
  by (intro conjI allI impI asum_abs_stride nrm2_abs_stride asum_call nrm2_call sint_std_abs
      dot_call axpy_call copy_call swap_call rot_call)

theorem stride_sign_convention_witness:
  "overflow_check 3 [- 2] = None \<and> sint (- 2 :: int64_t) \<noteq> - (2 ^ 63) \<and>
   asum ref_asum fresh_world q0 3 [- 3, 9, 4, 9, - 5] (- 2) [0] =
   asum ref_asum fresh_world q0 3 [- 3, 9, 4, 9, - 5] 2 [0] \<and>
   int_args (last_call (asum ref_asum fresh_world q0 3 [- 3, 9, 4, 9, - 5] (- 2) [0])) =
     [3, 2] \<and>
   buffers_of (asum ref_asum fresh_world q0 3 [- 3, 9, 4, 9, - 5] (- 2) [0]) = [12] \<and>
   overflow_check 3 [- 1, 1] = None \<and>
   int_args (last_call (dot ref_dot fresh_world q0 3 [1, 2, 3] (- 1) [4, 5, 6] 1
     [0 :: real])) = [3, - 1, 1] \<and>
   buffers_of (dot ref_dot fresh_world q0 3 [1, 2, 3] (- 1) [4, 5, 6] 1 [0 :: real]) = [28]"
proof -
  note abs_part = stride_sign_convention [THEN conjunct1, rule_format, where func = ref_asum
      and w = fresh_world and queue = q0 and n = 3 and x = "[- 3, 9, 4, 9, - 5]"
      and s = "- 2" and result = "[0]"]
  note abs_value = stride_sign_convention [THEN conjunct2, THEN conjunct2, THEN conjunct1,
      rule_format]
  note dot_part = stride_sign_convention [THEN conjunct2, THEN conjunct2, THEN conjunct2,
      THEN conjunct1, rule_format, where func = ref_dot and w = fresh_world and queue = q0
      and n = 3 and x = "[1, 2, 3 :: real]" and incx = "- 1" and y = "[4, 5, 6]"
      and incy = 1 and result = "[0]"]
  have ok: "overflow_check 3 [- 2] = None"
    by (simp add: overflow_check_def native_int_fits_def max_abs_stride_simps)
  have ok2: "overflow_check 3 [- 1, 1] = None"
    by (simp add: overflow_check_def native_int_fits_def max_abs_stride_simps)
  have not_least: "sint (- 2 :: int64_t) \<noteq> - (2 ^ 63)"
    by simp
  have "sint (std_abs (- 2)) = sint (2 :: int64_t)"
    using abs_value [of "- 2"] not_least by simp
  then have two: "std_abs (- 2) = 2"
    by (rule signed_word_eqI)
  have sum: "ref_asum CUBLAS_POINTER_MODE_DEVICE 3 [- 3, 9, 4, 9, - 5] 2 =
      (CUBLAS_STATUS_SUCCESS, 12)"
    by (simp add: ref_asum_def strided_def blas_index_def upt_rec)
  have run: "ref_dot CUBLAS_POINTER_MODE_DEVICE 3 [1, 2, 3] (- 1) [4, 5, 6 :: real] 1 =
      (CUBLAS_STATUS_SUCCESS, 28)"
    by (simp add: ref_dot_def strided_def blas_index_def upt_rec)
  have same: "asum ref_asum fresh_world q0 3 [- 3, 9, 4, 9, - 5] (- 2) [0] =
      asum ref_asum fresh_world q0 3 [- 3, 9, 4, 9, - 5] 2 [0]"
    using abs_part [THEN conjunct1] two by simp
  have args: "int_args (last_call (asum ref_asum fresh_world q0 3 [- 3, 9, 4, 9, - 5] (- 2)
      [0])) = [3, 2]"
    using abs_part [THEN conjunct2, rule_format, OF ok, THEN conjunct1] two by simp
  have bufs: "buffers_of (asum ref_asum fresh_world q0 3 [- 3, 9, 4, 9, - 5] (- 2) [0]) =
      [12]"
    using abs_part [THEN conjunct2, rule_format, OF ok, THEN conjunct2] two sum by simp
  have dot_args: "int_args (last_call (dot ref_dot fresh_world q0 3 [1, 2, 3] (- 1)
      [4, 5, 6] 1 [0 :: real])) = [3, - 1, 1]"
    using dot_part [OF ok2, THEN conjunct1] by simp
  have dot_bufs: "buffers_of (dot ref_dot fresh_world q0 3 [1, 2, 3] (- 1) [4, 5, 6] 1
      [0 :: real]) = [28]"
    using dot_part [OF ok2, THEN conjunct2] run by simp
  show ?thesis
    by (intro conjI ok not_least same args bufs ok2 dot_args dot_bufs)
qed

text \<open>
  Claim C10. scal hands the absolute value of the caller's stride to the vendor
  routine: for every element type, scalar and vector the whole outcome of scal with a
  stride \<open>s\<close> is the outcome with \<open>|s|\<close>, the vendor call is issued with \<open>|s|\<close>, and the
  vector returned is what the vendor routine computes at \<open>|s|\<close>.
\<close>

theorem scal_uses_absolute_stride:
  "\<forall>func w queue n a x s.
     scal func w queue n a x s = scal func w queue n a x (std_abs s) \<and>
     (overflow_check n [s] = None \<longrightarrow>
        int_args (last_call (scal func w queue n a x s)) = [n, std_abs s] \<and>
        buffers_of (scal func w queue n a x s) =
          snd (func (context_mode w (native_context queue)) n a x (std_abs s)))"
  by (intro conjI allI impI scal_abs_stride scal_call)

theorem scal_uses_absolute_stride_witness:
  "overflow_check 2 [- 2] = None \<and>
   int_args (last_call (scal ref_scal
     fresh_world q0 2 10 [1, 2, 3] (- 2))) = [2, 2] \<and>
   buffers_of (scal ref_scal
     fresh_world q0 2 10 [1, 2, 3] (- 2)) = [10, 2, 30] \<and>
   scal ref_scal fresh_world q0 2 10 [1, 2, 3] (- 2) =
   scal ref_scal fresh_world q0 2 10 [1, 2, 3] 2"
proof -
  let ?f = "ref_scal"
  note general = scal_uses_absolute_stride [rule_format, where func = ?f and w = fresh_world
      and queue = q0 and n = 2 and a = 10 and x = "[1, 2, 3]" and s = "- 2"]
  have ok: "overflow_check 2 [- 2] = None"
    by (simp add: overflow_check_def native_int_fits_def max_abs_stride_simps)
  have two: "std_abs (- 2) = 2"
    by (simp add: std_abs_def)
  have run: "ref_scal m 2 10 [1, 2, 3] 2 = (CUBLAS_STATUS_SUCCESS, [10, 2, 30])" for m
    by (simp add: ref_scal_def upt_rec)
  have same: "scal ?f fresh_world q0 2 10 [1, 2, 3] (- 2) =
      scal ?f fresh_world q0 2 10 [1, 2, 3] 2"
    using general [THEN conjunct1] two by simp
  have args: "int_args (last_call (scal ?f fresh_world q0 2 10 [1, 2, 3] (- 2))) = [2, 2]"
    using general [THEN conjunct2, rule_format, OF ok, THEN conjunct1] two by simp
  have bufs: "buffers_of (scal ?f fresh_world q0 2 10 [1, 2, 3] (- 2)) = [10, 2, 30]"
    using general [THEN conjunct2, rule_format, OF ok, THEN conjunct2] two run by simp
  show ?thesis
    by (intro conjI ok args bufs same)
qed

section \<open>The handle cache\<close>

lemma get_handle_created:
  "handles_created (snd (get_handle q w)) =
     (if handle_cache w (native_context q) = None then Suc (handles_created w)
      else handles_created w)"
  by (simp add: get_handle_def Let_def split: option.split)

lemma get_handle_created_le:
  "handles_created (snd (get_handle q w)) \<le> Suc (handles_created w)"
  by (simp add: get_handle_def Let_def split: option.split)

lemma get_handle_dom:
  "dom (handle_cache (snd (get_handle q w))) = insert (native_context q) (dom (handle_cache w))"
  by (auto simp add: get_handle_def Let_def split: option.split if_splits)

lemma get_handle_keeps_entry:
  "handle_cache w c = Some h \<Longrightarrow> handle_cache (snd (get_handle q w)) c = Some h"
  by (auto simp add: get_handle_def Let_def split: option.split)

lemma acquire_all_keeps_entry:
  "handle_cache w c = Some h \<Longrightarrow> handle_cache (acquire_all qs w) c = Some h"
proof (induction qs arbitrary: w)
  case Nil
  then show ?case by simp
next
  case (Cons q qs)
  from Cons.prems have "handle_cache (snd (get_handle q w)) c = Some h"
    by (rule get_handle_keeps_entry)
  then show ?case by (simp add: Cons.IH)
qed

lemma acquire_all_dom:
  "dom (handle_cache (acquire_all qs w)) = native_context ` set qs \<union> dom (handle_cache w)"
  by (induction qs arbitrary: w) (simp_all add: get_handle_dom)

lemma cache_counted_get_handle:
  assumes "cache_counted w"
  shows "cache_counted (snd (get_handle q w))"
proof (cases "handle_cache w (native_context q)")
  case None
  then have "native_context q \<notin> dom (handle_cache w)"
    by (simp add: domIff)
  with assms None show ?thesis
    by (simp add: cache_counted_def get_handle_dom get_handle_created)
next
  case (Some h)
  with assms show ?thesis
    by (simp add: cache_counted_def get_handle_hit)
qed

lemma cache_counted_acquire_all:
  "cache_counted w \<Longrightarrow> cache_counted (acquire_all qs w)"
  by (induction qs arbitrary: w) (simp_all add: cache_counted_get_handle)

lemma cache_counted_fresh_world: "cache_counted fresh_world"
  by (simp add: cache_counted_def fresh_world_def)

lemma acquired_again:
  assumes "native_context q2 = native_context q1"
  shows "get_handle q2 (acquire_all qs (snd (get_handle q1 w))) =
    (fst (get_handle q1 w), acquire_all qs (snd (get_handle q1 w)))"
proof -
  have "handle_cache (snd (get_handle q1 w)) (native_context q2) = Some (fst (get_handle q1 w))"
    using assms by (simp add: get_handle_cached)
  then have "handle_cache (acquire_all qs (snd (get_handle q1 w))) (native_context q2) =
      Some (fst (get_handle q1 w))"
    by (rule acquire_all_keeps_entry)
  then show ?thesis by (rule get_handle_hit)
qed

lemma created_from_fresh:
  "handles_created (acquire_all qs fresh_world) = card (native_context ` set qs)"
proof -
  have "cache_counted (acquire_all qs fresh_world)"
    by (rule cache_counted_acquire_all) (rule cache_counted_fresh_world)
  then show ?thesis
    by (simp add: cache_counted_def acquire_all_dom fresh_world_def)
qed

text \<open>
  Claim C8. Acquiring the handle for two queues that share a native context returns
  the same handle, also when handles for other queues are acquired in between, and
  the second acquisition leaves the cache as it is: no second handle is created. One
  acquisition creates at most one handle, and any sequence of acquisitions from the
  initial state has created exactly one handle per context that occurs in it.
\<close>

theorem handle_acquired_once_per_context:
  "(\<forall>q1 q2 qs w.
      native_context q2 = native_context q1 \<longrightarrow>
        get_handle q2 (acquire_all qs (snd (get_handle q1 w))) =
          (fst (get_handle q1 w), acquire_all qs (snd (get_handle q1 w)))) \<and>
   (\<forall>q w. handles_created (snd (get_handle q w)) \<le> Suc (handles_created w)) \<and>
   (\<forall>qs. handles_created (acquire_all qs fresh_world) = card (native_context ` set qs))"
  by (intro conjI allI impI acquired_again created_from_fresh get_handle_created_le)

theorem handle_acquired_once_per_context_witness:
  "native_context \<lparr>queue_id = 1, native_context = 7\<rparr> = native_context q0 \<and>
   fst (get_handle q0 fresh_world) = 0 \<and>
   fst (get_handle \<lparr>queue_id = 1, native_context = 7\<rparr>
     (acquire_all [\<lparr>queue_id = 2, native_context = 9\<rparr>] (snd (get_handle q0 fresh_world)))) = 0 \<and>
   handles_created (snd (get_handle \<lparr>queue_id = 1, native_context = 7\<rparr>
     (acquire_all [\<lparr>queue_id = 2, native_context = 9\<rparr>] (snd (get_handle q0 fresh_world))))) = 2"
proof -
  let ?q1 = "\<lparr>queue_id = 1, native_context = 7\<rparr>"
  let ?q2 = "\<lparr>queue_id = 2, native_context = 9\<rparr>"
  note again = handle_acquired_once_per_context [THEN conjunct1, rule_format,
      where ?q1.0 = q0 and ?q2.0 = ?q1 and qs = "[?q2]" and w = fresh_world]
  have shared: "native_context ?q1 = native_context q0"
    by (simp add: q0_def)
  have first: "fst (get_handle q0 fresh_world) = 0"
    by (simp add: get_handle_def fresh_world_def q0_def)
  have count: "handles_created (acquire_all [?q2] (snd (get_handle q0 fresh_world))) = 2"
    by (simp add: get_handle_def fresh_world_def q0_def)
  have second: "fst (get_handle ?q1 (acquire_all [?q2] (snd (get_handle q0 fresh_world)))) = 0"
    using again [OF shared] first by simp
  have total: "handles_created (snd (get_handle ?q1
      (acquire_all [?q2] (snd (get_handle q0 fresh_world))))) = 2"
    using again [OF shared] count by simp
  show ?thesis
    by (intro conjI shared first second total)
qed

end
